theory Spec2Isabelle
  imports Complex_Main "HOL-Library.Char_ord" "HOL-Library.List_Lexorder"
begin

section \<open>Go strings and the standard-library functions the package calls\<close>

text \<open>
  A Go string is a sequence of bytes, and so is an Isabelle \<open>string\<close>; \<open>len(s)\<close> is
  \<open>length s\<close>. The functions of this section belong to Go's standard library
  (\<open>strings\<close>, \<open>strconv\<close>, \<open>time\<close>, \<open>net/url\<close>, \<open>fmt\<close>), not to the
  repository. They are written out here after the library's documented behaviour so that
  the repository's own functions can be evaluated. Where a model covers less than the
  library does, its comment says so.
\<close>

subsection \<open>Package strings\<close>

definition HasPrefix :: "string \<Rightarrow> string \<Rightarrow> bool" where
  "HasPrefix s p = (take (length p) s = p)"

definition HasSuffix :: "string \<Rightarrow> string \<Rightarrow> bool" where
  "HasSuffix s suf = (length suf \<le> length s \<and> drop (length s - length suf) s = suf)"

definition TrimSuffix :: "string \<Rightarrow> string \<Rightarrow> string" where
  "TrimSuffix s suf = (if HasSuffix s suf then take (length s - length suf) s else s)"

text \<open>
  \<open>strings.Split(s, sep)\<close>: the pieces of \<open>s\<close> between the leftmost non-overlapping
  occurrences of \<open>sep\<close>. With an empty separator Go cuts after every UTF-8 sequence; the
  model cuts after every byte, which is the same on ASCII text.
\<close>

function splitFrom :: "string \<Rightarrow> string \<Rightarrow> string \<Rightarrow> string list" where
  "splitFrom sep cur [] = [cur]"
| "splitFrom sep cur (c # cs) =
     (if sep \<noteq> [] \<and> HasPrefix (c # cs) sep
      then cur # splitFrom sep [] (drop (length sep) (c # cs))
      else splitFrom sep (cur @ [c]) cs)"
  by pat_completeness auto
termination
  by (relation "measure (\<lambda>(sep, cur, s). length s)") auto

definition Split :: "string \<Rightarrow> string \<Rightarrow> string list" where
  "Split s sep = (if sep = [] then map (\<lambda>c. [c]) s else splitFrom sep [] s)"

definition isSpace :: "char \<Rightarrow> bool" where
  \<comment> \<open>the ASCII white space of \<open>unicode.IsSpace\<close>: tab, line feed, vertical tab, form
      feed, carriage return, space\<close>
  "isSpace c = (c \<in> set [CHR 0x09, CHR 0x0A, CHR 0x0B, CHR 0x0C, CHR 0x0D, CHR 0x20])"

definition TrimSpace :: "string \<Rightarrow> string" where
  \<comment> \<open>Go also trims the Unicode spaces beyond ASCII (U+0085, U+00A0, ...)\<close>
  "TrimSpace s = rev (dropWhile isSpace (rev (dropWhile isSpace s)))"

fun Join :: "string list \<Rightarrow> string \<Rightarrow> string" where
  "Join [] sep = []"
| "Join [x] sep = x"
| "Join (x # y # ys) sep = x @ sep @ Join (y # ys) sep"

definition toLowerChar :: "char \<Rightarrow> char" where
  "toLowerChar c = (if CHR ''A'' \<le> c \<and> c \<le> CHR ''Z'' then char_of (of_char c + (32::nat)) else c)"

definition ToLower :: "string \<Rightarrow> string" where
  \<comment> \<open>the ASCII letters; Go also maps the upper-case letters beyond ASCII\<close>
  "ToLower s = map toLowerChar s"

definition Repeat :: "string \<Rightarrow> nat \<Rightarrow> string" where
  "Repeat s n = concat (replicate n s)"

subsection \<open>Decimal digits\<close>

definition isDigit :: "char \<Rightarrow> bool" where
  "isDigit c = (CHR ''0'' \<le> c \<and> c \<le> CHR ''9'')"

definition digitVal :: "char \<Rightarrow> int" where
  "digitVal c = of_char c - 48"

definition digitChar :: "int \<Rightarrow> char" where
  "digitChar d = char_of (48 + d)"

text \<open>
  Whole numbers are kept as \<open>int\<close> throughout, with the bounds of Go's \<open>int64\<close> and
  \<open>uint64\<close> written out where the library checks them.
\<close>

function showNat :: "int \<Rightarrow> string" where
  \<comment> \<open>the decimal digits of a number that is not negative\<close>
  "showNat n = (if n < 10 then [digitChar n] else showNat (n div 10) @ [digitChar (n mod 10)])"
  by pat_completeness auto
termination
  by (relation "measure nat") auto

declare showNat.simps [simp del]

definition Itoa :: "int \<Rightarrow> string" where
  \<comment> \<open>\<open>%d\<close> and \<open>%v\<close> of an integer\<close>
  "Itoa i = (if i < 0 then ''-'' @ showNat (- i) else showNat i)"

definition digitsVal :: "string \<Rightarrow> int" where
  "digitsVal ds = foldl (\<lambda>x c. x * 10 + digitVal c) 0 ds"

subsection \<open>Package strconv\<close>

definition ParseInt :: "string \<Rightarrow> int option" where
  \<comment> \<open>\<open>strconv.ParseInt(s, 10, 64)\<close>: an optional sign and at least one decimal digit,
      the value within int64; \<open>None\<close> is a non-nil error (syntax or range)\<close>
  "ParseInt s =
     (case s of
        [] \<Rightarrow> None
      | c # cs \<Rightarrow>
          (let neg = (c = CHR ''-'');
               ds = (if c = CHR ''+'' \<or> c = CHR ''-'' then cs else s);
               un = digitsVal ds
           in if ds = [] \<or> \<not> list_all isDigit ds then None
              else if \<not> neg \<and> un \<ge> 2 ^ 63 then None
              else if neg \<and> un > 2 ^ 63 then None
              else Some (if neg then - un else un)))"

definition ParseBool :: "string \<Rightarrow> bool option" where
  "ParseBool s =
     (if s \<in> set [''1'', ''t'', ''T'', ''TRUE'', ''true'', ''True''] then Some True
      else if s \<in> set [''0'', ''f'', ''F'', ''FALSE'', ''false'', ''False''] then Some False
      else None)"

text \<open>
  A \<open>float64\<close> is modelled by the rational number it denotes, or one of the four
  special values: the negative zero, the two infinities and NaN. \<open>Fin 0\<close> is the
  positive zero. Every \<open>Fin r\<close> that the functions below return is a binary64 number:
  \<open>float64Round\<close> is the rounding of IEEE 754, to the nearest binary64 number, a tie to
  the one with the even significand.
\<close>

datatype float64 = Fin rat | NegZero | PosInf | NegInf | NaN

function ipow :: "int \<Rightarrow> int \<Rightarrow> int" where
  \<comment> \<open>\<open>b^k\<close> for \<open>k \<ge> 0\<close>\<close>
  "ipow b k = (if k \<le> 0 then 1 else b * ipow b (k - 1))"
  by pat_completeness auto
termination
  by (relation "measure (\<lambda>(b, k). nat k)") auto

declare ipow.simps [simp del]

definition pow2 :: "int \<Rightarrow> int" where
  "pow2 k = ipow 2 k"

function bitLenFrom :: "int \<Rightarrow> int \<Rightarrow> int \<Rightarrow> int" where
  \<comment> \<open>with \<open>p = 2^k\<close>: the least \<open>k' \<ge> k\<close> with \<open>n < 2^k'\<close>\<close>
  "bitLenFrom n p k = (if n < p \<or> p \<le> 0 then k else bitLenFrom n (2 * p) (k + 1))"
  by pat_completeness auto
termination
  by (relation "measure (\<lambda>(n, p, k). nat (n - p + 1))") auto

declare bitLenFrom.simps [simp del]

definition bitLen :: "int \<Rightarrow> int" where
  \<comment> \<open>the number of binary digits of \<open>n\<close>: \<open>2^(bitLen n - 1) \<le> n < 2^(bitLen n)\<close>
      for \<open>n > 0\<close>\<close>
  "bitLen n = bitLenFrom n 1 0"

definition scale2 :: "int \<Rightarrow> int \<Rightarrow> int \<Rightarrow> int \<times> int" where
  \<comment> \<open>numerator and denominator of \<open>(n / d) / 2^s\<close>\<close>
  "scale2 n d s = (if s \<ge> 0 then (n, d * pow2 s) else (n * pow2 (- s), d))"

definition floorLog2 :: "int \<Rightarrow> int \<Rightarrow> int" where
  \<comment> \<open>for \<open>n, d > 0\<close>: the \<open>e\<close> with \<open>2^e \<le> n / d < 2^(e+1)\<close>, which is
      \<open>bitLen n - bitLen d\<close> or one less\<close>
  "floorLog2 n d =
     (let k = bitLen n - bitLen d; (n', d') = scale2 n d k
      in if d' \<le> n' then k else k - 1)"

definition divHalfEven :: "int \<Rightarrow> int \<Rightarrow> int" where
  \<comment> \<open>\<open>n / d\<close> rounded to the nearest whole number, a half to the even one\<close>
  "divHalfEven n d =
     (let f = n div d; r2 = 2 * (n mod d)
      in if r2 < d then f else if r2 > d then f + 1 else if even f then f else f + 1)"

definition float64Mag :: "int \<Rightarrow> int \<Rightarrow> rat option" where
  \<comment> \<open>for \<open>n, d > 0\<close>: the binary64 number nearest to \<open>n / d\<close>, \<open>None\<close> for
      infinity. The significand has 53 bits, the unit in the last place is \<open>2^s\<close>, and
      the least exponent of a normal number is -1022: below it the numbers are
      subnormal, with the unit \<open>2^-1074\<close>.\<close>
  "float64Mag n d =
     (let s = max (floorLog2 n d) (- 1022) - 52;
          (n', d') = scale2 n d s;
          m = divHalfEven n' d'
      in if s \<ge> 0 then (if m * pow2 s \<ge> pow2 1024 then None else Some (of_int (m * pow2 s)))
         else Some (Fract m (pow2 (- s))))"

definition float64Ratio :: "bool \<Rightarrow> int \<Rightarrow> int \<Rightarrow> float64" where
  \<comment> \<open>the binary64 number nearest to \<open>n / d\<close>, for \<open>n \<ge> 0\<close> and \<open>d > 0\<close>, with
      the sign \<open>neg\<close>\<close>
  "float64Ratio neg n d =
     (if n = 0 then (if neg then NegZero else Fin 0)
      else case float64Mag n d of
             None \<Rightarrow> (if neg then NegInf else PosInf)
           | Some y \<Rightarrow> if y = 0 then (if neg then NegZero else Fin 0)
                       else Fin (if neg then - y else y))"

definition float64Round :: "rat \<Rightarrow> float64" where
  \<comment> \<open>the result of an arithmetic operation whose exact value is \<open>x\<close>; an exact zero
      is the positive zero (the operands here never are negative zeros)\<close>
  "float64Round x =
     (if x = 0 then Fin 0 else case quotient_of \<bar>x\<bar> of (n, d) \<Rightarrow> float64Ratio (x < 0) n d)"

definition fmul :: "float64 \<Rightarrow> rat \<Rightarrow> float64" where
  \<comment> \<open>the product with a positive binary64 constant\<close>
  "fmul x k =
     (case x of
        Fin r \<Rightarrow> float64Round (r * k)
      | NegZero \<Rightarrow> NegZero
      | PosInf \<Rightarrow> PosInf
      | NegInf \<Rightarrow> NegInf
      | NaN \<Rightarrow> NaN)"

definition isHexLetter :: "char \<Rightarrow> bool" where
  "isHexLetter c = ((CHR ''a'' \<le> c \<and> c \<le> CHR ''f'') \<or> (CHR ''A'' \<le> c \<and> c \<le> CHR ''F''))"

definition hexVal :: "char \<Rightarrow> int" where
  "hexVal c =
     (if isDigit c then of_char c - 48
      else if CHR ''a'' \<le> c \<and> c \<le> CHR ''f'' then of_char c - 87
      else of_char c - 55)"

fun readDigits :: "bool \<Rightarrow> bool \<Rightarrow> string \<Rightarrow> string \<Rightarrow> string \<Rightarrow> string \<times> string \<times> string" where
  \<comment> \<open>the loop of \<open>readFloat\<close> over the mantissa: the digits before the point, the
      digits after it, and the text from the first byte that is not part of the
      mantissa; an underscore is skipped, a second point ends the mantissa\<close>
  "readDigits hex sawdot ip fp [] = (ip, fp, [])"
| "readDigits hex sawdot ip fp (c # cs) =
     (if c = CHR ''_'' then readDigits hex sawdot ip fp cs
      else if c = CHR ''.'' then (if sawdot then (ip, fp, c # cs) else readDigits hex True ip fp cs)
      else if isDigit c \<or> (hex \<and> isHexLetter c)
      then (if sawdot then readDigits hex sawdot ip (fp @ [c]) cs
            else readDigits hex sawdot (ip @ [c]) fp cs)
      else (ip, fp, c # cs))"

fun underscoreLoop :: "bool \<Rightarrow> char \<Rightarrow> string \<Rightarrow> bool" where
  \<comment> \<open>the loop of \<open>underscoreOK\<close>; \<open>saw\<close> is the kind of the last byte: \<open>0\<close> for a
      digit or the base prefix, \<open>_\<close> for an underscore, \<open>!\<close> for anything else,
      \<open>^\<close> at the start\<close>
  "underscoreLoop hex saw [] = (saw \<noteq> CHR ''_'')"
| "underscoreLoop hex saw (c # cs) =
     (if isDigit c \<or> (hex \<and> isHexLetter c) then underscoreLoop hex (CHR ''0'') cs
      else if c = CHR ''_'' then (saw = CHR ''0'' \<and> underscoreLoop hex (CHR ''_'') cs)
      else if saw = CHR ''_'' then False
      else underscoreLoop hex (CHR ''!'') cs)"

definition underscoreOK :: "string \<Rightarrow> bool" where
  \<comment> \<open>an underscore only between two digits, or between the base prefix and a digit\<close>
  "underscoreOK s0 =
     (let s = (if HasPrefix s0 ''-'' \<or> HasPrefix s0 ''+'' then drop 1 s0 else s0);
          pre = (length s \<ge> 2 \<and> s ! 0 = CHR ''0''
                 \<and> s ! 1 \<in> set [CHR ''b'', CHR ''B'', CHR ''o'', CHR ''O'', CHR ''x'', CHR ''X'']);
          hex = (pre \<and> s ! 1 \<in> set [CHR ''x'', CHR ''X''])
      in underscoreLoop hex (if pre then CHR ''0'' else CHR ''^'') (if pre then drop 2 s else s))"

definition readExponent :: "string \<Rightarrow> (int \<times> string) option" where
  \<comment> \<open>what follows the exponent letter: an optional sign, a digit, then digits and
      underscores. The exponent stops growing once it has reached 10000. \<open>None\<close> when
      there is no digit; otherwise the exponent and the rest of the text.\<close>
  "readExponent s =
     (let neg = HasPrefix s ''-'';
          ds = (if HasPrefix s ''+'' \<or> HasPrefix s ''-'' then drop 1 s else s);
          isExp = (\<lambda>c. isDigit c \<or> c = CHR ''_'');
          e = foldl (\<lambda>e c. if c = CHR ''_'' then e else if e < 10000 then e * 10 + digitVal c else e)
                0 (takeWhile isExp ds)
      in if ds = [] \<or> \<not> isDigit (hd ds) then None
         else Some (if neg then - e else e, dropWhile isExp ds))"

definition pow10 :: "int \<Rightarrow> rat" where
  "pow10 e = (if e < 0 then Fract 1 (ipow 10 (- e)) else of_int (ipow 10 e))"

definition readFloat :: "string \<Rightarrow> ((int \<times> int) \<times> string) option" where
  \<comment> \<open>\<open>readFloat\<close> on the text after the sign: the exact value \<open>n / d\<close> of the
      longest literal the text begins with, and the rest of the text; \<open>None\<close> for
      \<open>!ok\<close>. A literal is hexadecimal when it begins with \<open>0x\<close> and has a byte after
      it; then the exponent, to the base two, is mandatory.\<close>
  "readFloat body =
     (let hex = (length body > 2 \<and> body ! 0 = CHR ''0'' \<and> body ! 1 \<in> set [CHR ''x'', CHR ''X'']);
          (ip, fp, r1) = readDigits hex False [] [] (if hex then drop 2 body else body);
          hasExp = (r1 \<noteq> [] \<and> hd r1 \<in> set (if hex then [CHR ''p'', CHR ''P''] else [CHR ''e'', CHR ''E'']));
          ex = (if hasExp then readExponent (drop 1 r1) else if hex then None else Some (0, r1))
      in if ip @ fp = [] then None
         else case ex of
           None \<Rightarrow> None
         | Some (e, r2) \<Rightarrow>
             (let consumed = take (length body - length r2) body;
                  mant = foldl (\<lambda>x c. x * (if hex then 16 else 10) + hexVal c) 0 (ip @ fp);
                  e' = (if hex then e - 4 * int (length fp) else e - int (length fp));
                  b = (if hex then 2 else 10)
              in if CHR ''_'' \<in> set consumed \<and> \<not> underscoreOK consumed then None
                 else Some (if e' \<ge> 0 then (mant * ipow b e', 1) else (mant, ipow b (- e')), r2)))"

definition ParseFloat :: "string \<Rightarrow> float64 option" where
  \<comment> \<open>\<open>strconv.ParseFloat(s, 64)\<close>: the binary64 number nearest to the value of the
      literal. \<open>None\<close> is a non-nil error: the text is not a literal with nothing after
      it, or its value rounds to an infinity.\<close>
  "ParseFloat s =
     (let neg = HasPrefix s ''-'';
          body = (if HasPrefix s ''+'' \<or> HasPrefix s ''-'' then drop 1 s else s)
      in if ToLower body = ''inf'' \<or> ToLower body = ''infinity''
         then Some (if neg then NegInf else PosInf)
         else if ToLower s = ''nan'' then Some NaN
         else case readFloat body of
                None \<Rightarrow> None
              | Some ((n, d), rest) \<Rightarrow>
                  if rest \<noteq> [] then None
                  else (case float64Ratio neg n d of
                          PosInf \<Rightarrow> None
                        | NegInf \<Rightarrow> None
                        | y \<Rightarrow> Some y))"

definition roundHalfEven :: "rat \<Rightarrow> int" where
  "roundHalfEven r =
     (let f = \<lfloor>r\<rfloor>; d = r - of_int f
      in if d < 1 / 2 then f else if d > 1 / 2 then f + 1 else if even f then f else f + 1)"

definition FormatFloat0 :: "float64 \<Rightarrow> string" where
  \<comment> \<open>\<open>%.0f\<close>: the nearest whole number, halves to the even one, a minus sign for a
      negative value and for the negative zero\<close>
  "FormatFloat0 x =
     (case x of
        Fin r \<Rightarrow> (if r < 0 then ''-'' @ showNat (roundHalfEven (- r))
                  else showNat (roundHalfEven r))
      | NegZero \<Rightarrow> ''-0''
      | PosInf \<Rightarrow> ''+Inf''
      | NegInf \<Rightarrow> ''-Inf''
      | NaN \<Rightarrow> ''NaN'')"

definition stripZeros :: "string \<Rightarrow> string" where
  "stripZeros ds = rev (dropWhile (\<lambda>c. c = CHR ''0'') (rev ds))"

fun decimalPoint :: "nat \<Rightarrow> rat \<Rightarrow> int" where
  \<comment> \<open>for \<open>0 < r < 1\<close>: minus the number of zeros between the point and the first
      non-zero digit; the first argument bounds the search (float64 has no value below
      \<open>10^-324\<close>)\<close>
  "decimalPoint 0 r = 0"
| "decimalPoint (Suc n) r = (if r * 10 \<ge> 1 then 0 else decimalPoint n (r * 10) - 1)"

fun shortest :: "nat \<Rightarrow> int \<Rightarrow> rat \<Rightarrow> int \<Rightarrow> int \<times> int" where
  \<comment> \<open>for a binary64 number \<open>r > 0\<close> with \<open>10^(dp-1) \<le> r < 10^dp\<close>: the least count
      of digits \<open>d' \<ge> d\<close> and a whole number \<open>m\<close> for which \<open>m * 10^(dp-d')\<close>
      reads back as \<open>r\<close>: \<open>r\<close> cut after \<open>d'\<close> digits, or that plus one in the last
      digit, and of the two the one nearer to \<open>r\<close> when both read back as \<open>r\<close>. The
      first argument counts down to seventeen digits, which always do.\<close>
  "shortest 0 d r dp = (roundHalfEven (r / pow10 (dp - d)), d)"
| "shortest (Suc n) d r dp =
     (let u = pow10 (dp - d);
          lo = \<lfloor>r / u\<rfloor>;
          okdown = (float64Round (of_int lo * u) = Fin r);
          okup = (float64Round (of_int (lo + 1) * u) = Fin r)
      in if okdown \<and> okup then (roundHalfEven (r / u), d)
         else if okdown then (lo, d)
         else if okup then (lo + 1, d)
         else shortest n (d + 1) r dp)"

definition floatDigits :: "rat \<Rightarrow> string \<times> int" where
  \<comment> \<open>for a binary64 number \<open>r > 0\<close>: the digits \<open>d1 d2 ...\<close> of the shortest decimal
      text that reads back as \<open>r\<close>, and the position \<open>dp\<close> of the point,
      \<open>0.d1d2... * 10^dp\<close>\<close>
  "floatDigits r =
     (let dp = (if r \<ge> 1 then int (length (showNat \<lfloor>r\<rfloor>)) else decimalPoint 400 r);
          (m, d) = shortest 16 1 r dp;
          ds = showNat m
      in (stripZeros ds, dp - d + int (length ds)))"

definition digitAt :: "string \<Rightarrow> int \<Rightarrow> char" where
  "digitAt ds i = (if 0 \<le> i \<and> i < int (length ds) then ds ! nat i else CHR ''0'')"

definition fmtE :: "string \<Rightarrow> int \<Rightarrow> string" where
  \<comment> \<open>\<open>d.ddde+XX\<close>, at least two digits in the exponent\<close>
  "fmtE ds dp =
     (let ex = dp - 1;
          es = showNat \<bar>ex\<bar>
      in take 1 ds @ (if length ds > 1 then ''.'' @ drop 1 ds else [])
         @ ''e'' @ (if ex < 0 then ''-'' else ''+'')
         @ (if length es < 2 then ''0'' @ es else es))"

definition fmtF :: "string \<Rightarrow> int \<Rightarrow> string" where
  "fmtF ds dp =
     (let prec = nat (int (length ds) - dp)
      in (if dp > 0 then map (\<lambda>i. digitAt ds (int i)) [0 ..< nat dp] else ''0'')
         @ (if prec > 0 then ''.'' @ map (\<lambda>i. digitAt ds (dp + int i)) [0 ..< prec] else []))"

definition FormatFloatG :: "float64 \<Rightarrow> string" where
  \<comment> \<open>\<open>%v\<close> of a float64: \<open>strconv.FormatFloat(x, 'g', -1, 64)\<close>, the shortest text
      that reads back as \<open>x\<close>, in the exponent form when the decimal exponent is below
      -4 or at least 6\<close>
  "FormatFloatG x =
     (case x of
        PosInf \<Rightarrow> ''+Inf''
      | NegInf \<Rightarrow> ''-Inf''
      | NaN \<Rightarrow> ''NaN''
      | NegZero \<Rightarrow> ''-0''
      | Fin r \<Rightarrow>
          (if r = 0 then ''0''
           else let (ds, dp) = floatDigits \<bar>r\<bar>;
                    body = (if dp - 1 < - 4 \<or> dp - 1 \<ge> 6 then fmtE ds dp else fmtF ds dp)
                in (if r < 0 then ''-'' else []) @ body))"

subsection \<open>Package time\<close>

definition unitMap :: "string \<Rightarrow> int option" where
  \<comment> \<open>nanoseconds per unit; the two spellings of the micro sign are U+00B5 and U+03BC
      in UTF-8\<close>
  "unitMap u =
     (if u = ''ns'' then Some 1
      else if u = ''us'' then Some 1000
      else if u = [CHR 0xC2, CHR 0xB5, CHR ''s''] then Some 1000
      else if u = [CHR 0xCE, CHR 0xBC, CHR ''s''] then Some 1000
      else if u = ''ms'' then Some 1000000
      else if u = ''s'' then Some 1000000000
      else if u = ''m'' then Some 60000000000
      else if u = ''h'' then Some 3600000000000
      else None)"

fun leadingInt_loop :: "int \<Rightarrow> string \<Rightarrow> (int \<times> string) option" where
  "leadingInt_loop x [] = Some (x, [])"
| "leadingInt_loop x (c # cs) =
     (if \<not> isDigit c then Some (x, c # cs)
      else if x > 2 ^ 63 div 10 then None
      else if x * 10 + digitVal c > 2 ^ 63 then None
      else leadingInt_loop (x * 10 + digitVal c) cs)"

definition leadingInt :: "string \<Rightarrow> (int \<times> string) option" where
  \<comment> \<open>the leading digits as a uint64, and the rest; \<open>None\<close> on overflow\<close>
  "leadingInt s = leadingInt_loop 0 s"

fun leadingFraction_loop :: "int \<Rightarrow> int \<Rightarrow> bool \<Rightarrow> string \<Rightarrow> int \<times> int \<times> string" where
  "leadingFraction_loop x scale overflow [] = (x, scale, [])"
| "leadingFraction_loop x scale overflow (c # cs) =
     (if \<not> isDigit c then (x, scale, c # cs)
      else if overflow then leadingFraction_loop x scale overflow cs
      else if x > (2 ^ 63 - 1) div 10 then leadingFraction_loop x scale True cs
      else if x * 10 + digitVal c > 2 ^ 63 then leadingFraction_loop x scale True cs
      else leadingFraction_loop (x * 10 + digitVal c) (scale * 10) overflow cs)"

definition leadingFraction :: "string \<Rightarrow> int \<times> int \<times> string" where
  "leadingFraction s = leadingFraction_loop 0 1 False s"

definition isUnitChar :: "char \<Rightarrow> bool" where
  "isUnitChar c = (\<not> (c = CHR ''.'' \<or> isDigit c))"

definition durationTerm :: "string \<Rightarrow> (int \<times> string) option" where
  \<comment> \<open>one round of the loop of \<open>time.ParseDuration\<close>: a number, an optional fraction and
      a unit; the value in nanoseconds and the rest of the text. The fraction is computed
      in float64 by Go and exactly here.\<close>
  "durationTerm s =
     (if \<not> (HasPrefix s ''.'' \<or> (s \<noteq> [] \<and> isDigit (hd s))) then None
      else case leadingInt s of
        None \<Rightarrow> None
      | Some (v, s1) \<Rightarrow>
          (let pre = (length s1 \<noteq> length s);
               dot = HasPrefix s1 ''.'';
               fr = (if dot then leadingFraction (drop 1 s1) else (0, 1, s1));
               f = fst fr;
               scale = fst (snd fr);
               s2 = snd (snd fr);
               post = (dot \<and> length s2 \<noteq> length (drop 1 s1));
               u = takeWhile isUnitChar s2;
               s3 = dropWhile isUnitChar s2
           in if \<not> pre \<and> \<not> post then None
              else if u = [] then None
              else case unitMap u of
                None \<Rightarrow> None
              | Some unit \<Rightarrow>
                  if v > 2 ^ 63 div unit then None
                  else if f > 0
                  then (let v' = v * unit + \<lfloor>(of_int f :: rat) * (of_int unit / of_int scale)\<rfloor>
                        in if v' > 2 ^ 63 then None else Some (v', s3))
                  else Some (v * unit, s3)))"

function durationLoop :: "int \<Rightarrow> string \<Rightarrow> int option" where
  "durationLoop d s =
     (if s = [] then Some d
      else case durationTerm s of
        None \<Rightarrow> None
      | Some (v, s') \<Rightarrow>
          if length s' < length s
          then (let d' = (d + v) mod 2 ^ 64 in if d' > 2 ^ 63 then None else durationLoop d' s')
          else None)"
  by pat_completeness auto
termination
  by (relation "measure (\<lambda>(d, s). length s)") auto

declare durationLoop.simps [simp del]

definition ParseDuration :: "string \<Rightarrow> int option" where
  \<comment> \<open>\<open>time.ParseDuration\<close>: the duration in nanoseconds, an int64; \<open>None\<close> is a
      non-nil error\<close>
  "ParseDuration s =
     (let neg = HasPrefix s ''-'';
          s1 = (if HasPrefix s ''-'' \<or> HasPrefix s ''+'' then drop 1 s else s)
      in if s1 = ''0'' then Some 0
         else if s1 = [] then None
         else case durationLoop 0 s1 of
           None \<Rightarrow> None
         | Some d \<Rightarrow>
             if neg then Some (- d)
             else if d > 2 ^ 63 - 1 then None
             else Some d)"

definition Nanosecond :: int where "Nanosecond = 1"
definition Second :: int where "Second = 1000000000"
definition Minute :: int where "Minute = 60 * Second"
definition Hour :: int where "Hour = 60 * Minute"

definition fmtFrac :: "int \<Rightarrow> nat \<Rightarrow> string" where
  \<comment> \<open>the last \<open>prec\<close> digits of \<open>v\<close> after a point, trailing zeros (and then the
      point) left out\<close>
  "fmtFrac v prec =
     (let ds = showNat (v mod 10 ^ prec);
          padded = replicate (prec - length ds) (CHR ''0'') @ ds;
          kept = stripZeros padded
      in if prec = 0 \<or> kept = [] then [] else ''.'' @ kept)"

definition Duration_String :: "int \<Rightarrow> string" where
  \<comment> \<open>\<open>time.Duration.String\<close>, such as "1h30m0s", "1.5s", "250ms"\<close>
  "Duration_String d =
     (let u = \<bar>d\<bar>;
          sign = (if d < 0 then ''-'' else []);
          micro = [CHR 0xC2, CHR 0xB5, CHR ''s'']
      in if u = 0 then ''0s''
         else if u < 10 ^ 3 then sign @ showNat u @ ''ns''
         else if u < 10 ^ 6 then sign @ showNat (u div 10 ^ 3) @ fmtFrac u 3 @ micro
         else if u < 10 ^ 9 then sign @ showNat (u div 10 ^ 6) @ fmtFrac u 6 @ ''ms''
         else (let secs = u div 10 ^ 9;
                   mins = secs div 60;
                   hours = mins div 60
               in sign
                  @ (if hours > 0 then showNat hours @ ''h'' else [])
                  @ (if mins > 0 then showNat (mins mod 60) @ ''m'' else [])
                  @ showNat (secs mod 60) @ fmtFrac u 9 @ ''s''))"


subsection \<open>Package net/url\<close>

definition cutAt :: "char \<Rightarrow> string \<Rightarrow> string" where
  "cutAt c s = takeWhile (\<lambda>x. x \<noteq> c) s"

definition isLetter :: "char \<Rightarrow> bool" where
  "isLetter c = ((CHR ''a'' \<le> c \<and> c \<le> CHR ''z'') \<or> (CHR ''A'' \<le> c \<and> c \<le> CHR ''Z''))"

fun getScheme :: "string \<Rightarrow> string \<Rightarrow> (string \<times> string) option" where
  \<comment> \<open>the scheme read so far and the text ahead; \<open>None\<close> when the text starts with a
      colon (missing protocol scheme)\<close>
  "getScheme acc [] = Some ([], acc)"
| "getScheme acc (c # cs) =
     (if isLetter c then getScheme (acc @ [c]) cs
      else if isDigit c \<or> c = CHR ''+'' \<or> c = CHR ''-'' \<or> c = CHR ''.''
      then (if acc = [] then Some ([], c # cs) else getScheme (acc @ [c]) cs)
      else if c = CHR '':'' then (if acc = [] then None else Some (acc, cs))
      else Some ([], acc @ c # cs))"

definition validOptionalPort :: "string \<Rightarrow> bool" where
  "validOptionalPort port =
     (port = [] \<or> (HasPrefix port '':'' \<and> list_all isDigit (drop 1 port)))"

definition lastColon :: "string \<Rightarrow> string" where
  \<comment> \<open>the text from the last colon on, empty when there is none\<close>
  "lastColon h = (if CHR '':'' \<in> set h then CHR '':'' # rev (cutAt (CHR '':'') (rev h)) else [])"

definition url_Parse :: "string \<Rightarrow> (string \<times> string) option" where
  \<comment> \<open>\<open>url.Parse\<close>, as far as \<open>parseValue\<close> reads its result: the fields Scheme and
      Host, or \<open>None\<close> for an error. Modelled: control bytes, the fragment and query cuts,
      the scheme, the colon in a first path segment, the authority with its user
      information cut off and the port checked. Not modelled: the validation of percent
      escapes and of the characters of host and user information, and bracketed IPv6
      hosts.\<close>
  "url_Parse rawURL =
     (if \<exists>c \<in> set rawURL. c < CHR 0x20 \<or> c = CHR 0x7F then None
      else let u = cutAt (CHR ''#'') rawURL
      in if u = ''*'' then Some ([], [])
         else case getScheme [] u of
           None \<Rightarrow> None
         | Some (scheme0, rest0) \<Rightarrow>
             (let scheme = ToLower scheme0;
                  rest = cutAt (CHR ''?'') rest0
              in if \<not> HasPrefix rest ''/''
                 then (if scheme \<noteq> [] then Some (scheme, [])
                       else if CHR '':'' \<in> set (cutAt (CHR ''/'') rest) then None
                       else Some (scheme, []))
                 else if (scheme \<noteq> [] \<or> \<not> HasPrefix rest ''///'') \<and> HasPrefix rest ''//''
                 then (let authority = cutAt (CHR ''/'') (drop 2 rest);
                           host = (if CHR ''@'' \<in> set authority
                                   then rev (cutAt (CHR ''@'') (rev authority))
                                   else authority)
                       in if validOptionalPort (lastColon host) then Some (scheme, host)
                          else None)
                 else Some (scheme, [])))"

section \<open>Values of type any\<close>

text \<open>
  The package keeps resolved values, defaults and file data as Go's \<open>any\<close>. A value of
  the datatype below is an interface value with its dynamic type: the nil interface, the
  types the package produces and reads, the generic lists and maps of a decoded file,
  and \<open>Other\<close> for a value of any further type, given by the name of its type and its
  \<open>%v\<close> text (a \<open>time.Time\<close> out of a TOML file, a caller's own default).
  A Go \<open>map[string]any\<close> is an association list with \<open>map_of\<close> as the lookup.
\<close>

datatype any =
    VNil
  | VString string
  | VBool bool
  | VInt int
  | VInt64 int
  | VFloat64 float64
  | VDuration int
  | VStringSlice "string list"
  | VInt64Slice "int list"
  | VSlice "any list"
  | VMap "(string \<times> any) list"
  | VOther string string

definition bracket :: "string list \<Rightarrow> string" where
  "bracket xs = ''['' @ Join xs '' '' @ '']''"

fun Sprint :: "any \<Rightarrow> string" where
  \<comment> \<open>\<open>fmt.Sprintf("%v", v)\<close>; a map prints its keys in sorted order\<close>
  "Sprint VNil = ''<nil>''"
| "Sprint (VString s) = s"
| "Sprint (VBool b) = (if b then ''true'' else ''false'')"
| "Sprint (VInt i) = Itoa i"
| "Sprint (VInt64 i) = Itoa i"
| "Sprint (VFloat64 x) = FormatFloatG x"
| "Sprint (VDuration d) = Duration_String d"
| "Sprint (VStringSlice xs) = bracket xs"
| "Sprint (VInt64Slice xs) = bracket (map Itoa xs)"
| "Sprint (VSlice xs) = bracket (map Sprint xs)"
| "Sprint (VMap kvs) =
     ''map'' @ bracket (map (\<lambda>kv. fst kv @ '':'' @ snd kv)
                          (sort_key fst (map (\<lambda>kv. (fst kv, Sprint (snd kv))) kvs)))"
| "Sprint (VOther tn txt) = txt"

fun typeName :: "any \<Rightarrow> string" where
  \<comment> \<open>\<open>fmt.Sprintf("%T", v)\<close>\<close>
  "typeName VNil = ''<nil>''"
| "typeName (VString s) = ''string''"
| "typeName (VBool b) = ''bool''"
| "typeName (VInt i) = ''int''"
| "typeName (VInt64 i) = ''int64''"
| "typeName (VFloat64 x) = ''float64''"
| "typeName (VDuration d) = ''time.Duration''"
| "typeName (VStringSlice xs) = ''[]string''"
| "typeName (VInt64Slice xs) = ''[]int64''"
| "typeName (VSlice xs) = ''[]interface {}''"
| "typeName (VMap kvs) = ''map[string]interface {}''"
| "typeName (VOther tn txt) = tn"

type_synonym error = string

section \<open>types.go: value types and parseValue\<close>

datatype ValueType =
    TypeString
  | TypeInt64
  | TypeFloat64
  | TypeBool
  | TypeDuration
  | TypeURL
  | TypeStringSlice
  | TypeInt64Slice
  | TypeOther int  \<comment> \<open>\<open>ValueType(n)\<close> for an \<open>n\<close> outside the eight constants\<close>

fun ValueType_String :: "ValueType \<Rightarrow> string" where
  "ValueType_String TypeString = ''string''"
| "ValueType_String TypeInt64 = ''int64''"
| "ValueType_String TypeFloat64 = ''float64''"
| "ValueType_String TypeBool = ''bool''"
| "ValueType_String TypeDuration = ''duration''"
| "ValueType_String TypeURL = ''url''"
| "ValueType_String TypeStringSlice = ''[]string''"
| "ValueType_String TypeInt64Slice = ''[]int64''"
| "ValueType_String (TypeOther n) = ''unknown''"

fun parseInt64s :: "string list \<Rightarrow> int list \<Rightarrow> any \<times> error option" where
  \<comment> \<open>the loop of the \<open>TypeInt64Slice\<close> case over the parts\<close>
  "parseInt64s [] result = (VInt64Slice result, None)"
| "parseInt64s (p # ps) result =
     (let trimmed = TrimSpace p
      in if trimmed = [] then parseInt64s ps result
         else case ParseInt trimmed of
           None \<Rightarrow> (VNil, Some (''invalid int64 in array: '' @ trimmed))
         | Some v \<Rightarrow> parseInt64s ps (result @ [v]))"

definition parseValue :: "string \<Rightarrow> ValueType \<Rightarrow> string \<Rightarrow> any \<times> error option" where
  "parseValue raw valueType delimiter =
     (if raw = [] then (VNil, None)
      else case valueType of
        TypeString \<Rightarrow> (VString raw, None)
      | TypeInt64 \<Rightarrow>
          (case ParseInt raw of
             None \<Rightarrow> (VNil, Some (''invalid int64: '' @ raw))
           | Some v \<Rightarrow> (VInt64 v, None))
      | TypeFloat64 \<Rightarrow>
          (case ParseFloat raw of
             None \<Rightarrow> (VNil, Some (''invalid float64: '' @ raw))
           | Some v \<Rightarrow> (VFloat64 v, None))
      | TypeBool \<Rightarrow>
          (case ParseBool raw of
             None \<Rightarrow> (VNil, Some (''invalid bool: '' @ raw @ '' (use true/false, 1/0, yes/no)''))
           | Some v \<Rightarrow> (VBool v, None))
      | TypeDuration \<Rightarrow>
          (case (if HasSuffix raw ''d'' then ParseFloat (TrimSuffix raw ''d'') else None) of
             Some days \<Rightarrow>
               (let hours = fmul days 24
                in case ParseDuration (FormatFloat0 hours @ ''h'') of
                     None \<Rightarrow> (VNil, Some (''invalid duration: '' @ raw))
                   | Some v \<Rightarrow> (VDuration v, None))
           | None \<Rightarrow>
               (case ParseDuration raw of
                  None \<Rightarrow> (VNil, Some (''invalid duration: '' @ raw @ '' (use format like 15m, 1h, 7d)''))
                | Some v \<Rightarrow> (VDuration v, None)))
      | TypeURL \<Rightarrow>
          (case url_Parse raw of
             None \<Rightarrow> (VNil, Some (''invalid URL: '' @ raw))
           | Some (scheme, host) \<Rightarrow>
               if scheme = [] \<or> host = []
               then (VNil, Some (''invalid URL (missing scheme or host): '' @ raw))
               else (VString raw, None))
      | TypeStringSlice \<Rightarrow>
          (if raw = [] then (VStringSlice [], None)
           else (VStringSlice (filter (\<lambda>t. t \<noteq> []) (map TrimSpace (Split raw delimiter))), None))
      | TypeInt64Slice \<Rightarrow>
          (if raw = [] then (VInt64Slice [], None)
           else parseInt64s (Split raw delimiter) [])
      | TypeOther n \<Rightarrow> (VNil, Some (''unknown type: '' @ ValueType_String valueType)))"


section \<open>validation.go: validation rules\<close>

text \<open>
  A rule is a name and a check; the check returns an error or nil (\<open>None\<close>). The
  resolver treats every rule alike and only compares the name with "required", so the
  statements below hold for any list of rules. Of the catalogue, the constructors written
  out are those on strings, durations and lists; \<open>validateMin\<close>, \<open>validateMax\<close>
  (float64 comparison and \<open>%f\<close>) and \<open>validateRegexp\<close> (a regular-expression engine)
  are not.
\<close>

record Validation =
  Name :: string
  Check :: "any \<Rightarrow> error option"

definition validateRequired :: Validation where
  "validateRequired =
     \<lparr>Name = ''required'',
      Check = (\<lambda>value.
        if value = VNil then Some ''value is required''
        else if value = VString [] then Some ''value is required (empty string)''
        else None)\<rparr>"

definition lenInt :: "'a list \<Rightarrow> int" where
  "lenInt xs = int (length xs)"

definition validateMinLength :: "int \<Rightarrow> Validation" where
  "validateMinLength minimum =
     \<lparr>Name = ''minLength('' @ Itoa minimum @ '')'',
      Check = (\<lambda>value. case value of
          VString s \<Rightarrow>
            if lenInt s < minimum
            then Some (''value length '' @ Itoa (lenInt s) @ '' is less than minimum '' @ Itoa minimum)
            else None
        | _ \<Rightarrow> None)\<rparr>"

definition validateMaxLength :: "int \<Rightarrow> Validation" where
  "validateMaxLength maximum =
     \<lparr>Name = ''maxLength('' @ Itoa maximum @ '')'',
      Check = (\<lambda>value. case value of
          VString s \<Rightarrow>
            if lenInt s > maximum
            then Some (''value length '' @ Itoa (lenInt s) @ '' is greater than maximum '' @ Itoa maximum)
            else None
        | _ \<Rightarrow> None)\<rparr>"

definition validateOneOf :: "string list \<Rightarrow> Validation" where
  "validateOneOf allowed =
     \<lparr>Name = ''oneOf('' @ bracket allowed @ '')'',
      Check = (\<lambda>value. case value of
          VString s \<Rightarrow>
            if s \<in> set allowed then None
            else Some (''value '' @ [CHR 0x27] @ s @ [CHR 0x27] @ '' is not one of: '' @ bracket allowed)
        | _ \<Rightarrow> None)\<rparr>"

definition validateMinDuration :: "int \<Rightarrow> Validation" where
  "validateMinDuration minimum =
     \<lparr>Name = ''minDuration('' @ Duration_String minimum @ '')'',
      Check = (\<lambda>value. case value of
          VDuration d \<Rightarrow>
            if d < minimum
            then Some (''duration '' @ Duration_String d @ '' is less than minimum '' @ Duration_String minimum)
            else None
        | _ \<Rightarrow> None)\<rparr>"

definition validateMaxDuration :: "int \<Rightarrow> Validation" where
  "validateMaxDuration maximum =
     \<lparr>Name = ''maxDuration('' @ Duration_String maximum @ '')'',
      Check = (\<lambda>value. case value of
          VDuration d \<Rightarrow>
            if d > maximum
            then Some (''duration '' @ Duration_String d @ '' is greater than maximum '' @ Duration_String maximum)
            else None
        | _ \<Rightarrow> None)\<rparr>"

definition itemsBelow :: "int \<Rightarrow> int \<Rightarrow> error option" where
  "itemsBelow n minimum =
     (if n < minimum then Some (''array has '' @ Itoa n @ '' items, minimum is '' @ Itoa minimum) else None)"

definition itemsAbove :: "int \<Rightarrow> int \<Rightarrow> error option" where
  "itemsAbove n maximum =
     (if n > maximum then Some (''array has '' @ Itoa n @ '' items, maximum is '' @ Itoa maximum) else None)"

definition validateMinItems :: "int \<Rightarrow> Validation" where
  "validateMinItems minimum =
     \<lparr>Name = ''minItems('' @ Itoa minimum @ '')'',
      Check = (\<lambda>value. case value of
          VStringSlice v \<Rightarrow> itemsBelow (lenInt v) minimum
        | VInt64Slice v \<Rightarrow> itemsBelow (lenInt v) minimum
        | _ \<Rightarrow> None)\<rparr>"

definition validateMaxItems :: "int \<Rightarrow> Validation" where
  "validateMaxItems maximum =
     \<lparr>Name = ''maxItems('' @ Itoa maximum @ '')'',
      Check = (\<lambda>value. case value of
          VStringSlice v \<Rightarrow> itemsAbove (lenInt v) maximum
        | VInt64Slice v \<Rightarrow> itemsAbove (lenInt v) maximum
        | _ \<Rightarrow> None)\<rparr>"

section \<open>definition.go: definitions and their builder\<close>

record Definition =
  key :: string
  valueType :: ValueType
  envVar :: string
  flag :: string
  defaultValue :: any
  required :: bool
  secret :: bool
  delimiter :: string
  validations :: "Validation list"
  description :: string

definition newDefinition :: "string \<Rightarrow> Definition" where
  \<comment> \<open>the definition that \<open>newDefinitionBuilder\<close> allocates\<close>
  "newDefinition k =
     \<lparr>key = k, valueType = TypeString, envVar = [], flag = [], defaultValue = VNil,
      required = False, secret = False, delimiter = '','', validations = [],
      description = []\<rparr>"

text \<open>
  The builder holds a pointer to the definition that \<open>Define\<close> has already put into the
  configuration, and every chained call writes through it. A chained call is a function
  on the definition here, and \<open>Define\<close> (below) stores the definition that the chain
  leaves.
\<close>

definition DefinitionBuilder_String :: "Definition \<Rightarrow> Definition" where
  "DefinitionBuilder_String d = d\<lparr>valueType := TypeString\<rparr>"

definition DefinitionBuilder_Int64 :: "Definition \<Rightarrow> Definition" where
  "DefinitionBuilder_Int64 d = d\<lparr>valueType := TypeInt64\<rparr>"

definition DefinitionBuilder_Duration :: "Definition \<Rightarrow> Definition" where
  "DefinitionBuilder_Duration d = d\<lparr>valueType := TypeDuration\<rparr>"

definition DefinitionBuilder_StringSlice :: "Definition \<Rightarrow> Definition" where
  "DefinitionBuilder_StringSlice d = d\<lparr>valueType := TypeStringSlice\<rparr>"

definition DefinitionBuilder_Env :: "string \<Rightarrow> Definition \<Rightarrow> Definition" where
  "DefinitionBuilder_Env e d = d\<lparr>envVar := e\<rparr>"

definition DefinitionBuilder_Flag :: "string \<Rightarrow> Definition \<Rightarrow> Definition" where
  "DefinitionBuilder_Flag f d = d\<lparr>flag := f\<rparr>"

definition DefinitionBuilder_Required :: "Definition \<Rightarrow> Definition" where
  "DefinitionBuilder_Required d =
     d\<lparr>required := True, validations := validations d @ [validateRequired]\<rparr>"

definition DefinitionBuilder_Secret :: "Definition \<Rightarrow> Definition" where
  "DefinitionBuilder_Secret d = d\<lparr>secret := True\<rparr>"

definition DefinitionBuilder_Default :: "any \<Rightarrow> Definition \<Rightarrow> Definition" where
  "DefinitionBuilder_Default v d = d\<lparr>defaultValue := v\<rparr>"

definition DefinitionBuilder_Delimiter :: "string \<Rightarrow> Definition \<Rightarrow> Definition" where
  "DefinitionBuilder_Delimiter x d = d\<lparr>delimiter := x\<rparr>"

definition DefinitionBuilder_MinLength :: "int \<Rightarrow> Definition \<Rightarrow> Definition" where
  "DefinitionBuilder_MinLength n d = d\<lparr>validations := validations d @ [validateMinLength n]\<rparr>"

definition DefinitionBuilder_MaxLength :: "int \<Rightarrow> Definition \<Rightarrow> Definition" where
  "DefinitionBuilder_MaxLength n d = d\<lparr>validations := validations d @ [validateMaxLength n]\<rparr>"

definition DefinitionBuilder_Custom ::
    "string \<Rightarrow> (any \<Rightarrow> error option) \<Rightarrow> Definition \<Rightarrow> Definition" where
  "DefinitionBuilder_Custom name check d =
     d\<lparr>validations := validations d @ [\<lparr>Name = name, Check = check\<rparr>]\<rparr>"

section \<open>secret.go: secrets and their store\<close>

text \<open>
  A \<open>*Secret\<close> is an address into a heap of secrets, so that a handle a caller holds
  and the entry of the store are one object, and destroying it is seen through both.
  The buffer of memguard is the byte string it holds; \<open>None\<close> is the nil buffer.
\<close>

record Secret =
  buffer :: "string option"

type_synonym addr = nat
type_synonym heap = "Secret list"

definition deref :: "heap \<Rightarrow> addr \<Rightarrow> Secret" where
  \<comment> \<open>the object at an address; every address the model hands out is below the length of
      the heap, so the second branch is never reached through the package's functions\<close>
  "deref h a = (if a < length h then h ! a else \<lparr>buffer = None\<rparr>)"

definition newSecret :: "string \<Rightarrow> heap \<Rightarrow> addr \<times> heap" where
  "newSecret v h =
     (if v = [] then (length h, h @ [\<lparr>buffer = None\<rparr>])
      else (length h, h @ [\<lparr>buffer = Some v\<rparr>]))"

definition Secret_Bytes :: "Secret \<Rightarrow> string" where
  "Secret_Bytes s = (case buffer s of None \<Rightarrow> [] | Some b \<Rightarrow> b)"

definition Secret_String :: "Secret \<Rightarrow> string" where
  "Secret_String s = (case buffer s of None \<Rightarrow> [] | Some b \<Rightarrow> b)"

definition Secret_Destroy :: "addr \<Rightarrow> heap \<Rightarrow> heap" where
  "Secret_Destroy a h = (if a < length h then h[a := \<lparr>buffer = None\<rparr>] else h)"

definition Secret_IsSet :: "Secret \<Rightarrow> bool" where
  "Secret_IsSet s = (case buffer s of None \<Rightarrow> False | Some b \<Rightarrow> length b > 0)"

definition Secret_Size :: "Secret \<Rightarrow> nat" where
  "Secret_Size s = (case buffer s of None \<Rightarrow> 0 | Some b \<Rightarrow> length b)"

record SecretStore =
  secrets :: "(string \<times> addr) list"

definition newSecretStore :: SecretStore where
  "newSecretStore = \<lparr>secrets = []\<rparr>"

fun assign :: "string \<Rightarrow> 'v \<Rightarrow> (string \<times> 'v) list \<Rightarrow> (string \<times> 'v) list" where
  \<comment> \<open>\<open>m[k] = v\<close> on a Go map kept as an association list\<close>
  "assign k v [] = [(k, v)]"
| "assign k v ((k', v') # m) = (if k' = k then (k, v) # m else (k', v') # assign k v m)"

definition SecretStore_Store :: "string \<Rightarrow> string \<Rightarrow> heap \<times> SecretStore \<Rightarrow> heap \<times> SecretStore" where
  "SecretStore_Store k v hs =
     (let (a, h') = newSecret v (fst hs)
      in (h', (snd hs)\<lparr>secrets := assign k a (secrets (snd hs))\<rparr>))"

definition SecretStore_Get :: "heap \<Rightarrow> SecretStore \<Rightarrow> string \<Rightarrow> Secret" where
  \<comment> \<open>the secret behind the handle that \<open>Get\<close> returns: the stored one, or a new empty
      one for a key the store does not have\<close>
  "SecretStore_Get h ss k =
     (case map_of (secrets ss) k of Some a \<Rightarrow> deref h a | None \<Rightarrow> \<lparr>buffer = None\<rparr>)"

definition SecretStore_DestroyAll :: "heap \<times> SecretStore \<Rightarrow> heap \<times> SecretStore" where
  "SecretStore_DestroyAll hs =
     (foldr Secret_Destroy (map snd (secrets (snd hs))) (fst hs), (snd hs)\<lparr>secrets := []\<rparr>)"


section \<open>errors.go\<close>

record ConfigError =
  Key :: string
  Source :: string
  Value :: string
  Message :: string

definition maskSecret :: "string \<Rightarrow> string" where
  "maskSecret v =
     (if length v \<le> 4 then ''****''
      else take 2 v @ Repeat ''*'' (length v - 4) @ drop (length v - 2) v)"

section \<open>The process environment and package flag\<close>

text \<open>
  What the package reads from the process: \<open>os.Getenv\<close> (the empty string for a
  variable that is not set) and \<open>os.Args\<close>.
\<close>

record World =
  Getenv :: "string \<Rightarrow> string"
  Args :: "string list"

text \<open>
  A \<open>flag.FlagSet\<close> on which only \<open>String\<close> and \<open>Parse\<close> are called: the formal
  flags with the current contents of their string variables. \<open>String\<close> panics on a
  name that is already defined, begins with a dash or contains an equals sign. The
  pointer it returns is the name of the flag.
\<close>

record FlagSet =
  formal :: "string \<rightharpoonup> string"

definition NewFlagSet :: FlagSet where
  "NewFlagSet = \<lparr>formal = Map.empty\<rparr>"

definition FlagSet_String :: "FlagSet \<Rightarrow> string \<Rightarrow> string + FlagSet" where
  \<comment> \<open>\<open>Inl\<close> is a panic with its message\<close>
  "FlagSet_String fs name =
     (if HasPrefix name ''-'' then Inl (''flag '' @ name @ '' begins with -'')
      else if CHR ''='' \<in> set name then Inl (''flag '' @ name @ '' contains ='')
      else if formal fs name \<noteq> None then Inl (''flag redefined: '' @ name)
      else Inr (fs\<lparr>formal := (formal fs)(name \<mapsto> [])\<rparr>))"

fun parseArgs :: "(string \<rightharpoonup> string) \<Rightarrow> string list \<Rightarrow> (string \<rightharpoonup> string)" where
  \<comment> \<open>the loop of \<open>Parse\<close> over \<open>parseOne\<close>: it stops at the first argument that is
      not a flag, at "--", and at the first error (the error handling is
      \<open>ContinueOnError\<close>, and \<open>Process\<close> drops the error)\<close>
  "parseArgs fm [] = fm"
| "parseArgs fm (s # rest) =
     (if length s < 2 \<or> hd s \<noteq> CHR ''-'' then fm
      else if s = ''--'' then fm
      else let name0 = (if s ! 1 = CHR ''-'' then drop 2 s else drop 1 s)
      in if name0 = [] \<or> hd name0 = CHR ''-'' \<or> hd name0 = CHR ''='' then fm
         else let name = takeWhile (\<lambda>c. c \<noteq> CHR ''='') name0;
                  hasValue = (CHR ''='' \<in> set name0);
                  v = drop 1 (dropWhile (\<lambda>c. c \<noteq> CHR ''='') name0)
         in if fm name = None then fm
            else if hasValue then parseArgs (fm(name \<mapsto> v)) rest
            else case rest of
                   [] \<Rightarrow> fm
                 | v' # rest' \<Rightarrow> parseArgs (fm(name \<mapsto> v')) rest')"

definition FlagSet_Parse :: "FlagSet \<Rightarrow> string list \<Rightarrow> FlagSet" where
  "FlagSet_Parse fs arguments = fs\<lparr>formal := parseArgs (formal fs) arguments\<rparr>"

section \<open>files.go: file data\<close>

record FileConfig =
  data :: "(string \<times> any) list"
  envPrefix :: string
  environment :: string

section \<open>config.go: the configuration\<close>

text \<open>
  The fields of \<open>Config\<close> that resolution reads and writes. \<open>flagValues\<close> maps a key
  to the pointer that \<open>flagSet.String\<close> returned for it. Left out are the commands, the
  middleware and the override warnings: \<open>Process\<close> ends by recomputing the warnings,
  which reads the sources again and writes nothing but that field and the log.
\<close>

record Config =
  definitions :: "string \<rightharpoonup> Definition"
  c_values :: "string \<rightharpoonup> any"
  c_secrets :: SecretStore
  flagSet :: FlagSet
  flagValues :: "string \<rightharpoonup> string"
  fileConfig :: "FileConfig option"
  processed :: bool

definition New :: Config where
  "New =
     \<lparr>definitions = Map.empty, c_values = Map.empty, c_secrets = newSecretStore,
      flagSet = NewFlagSet, flagValues = Map.empty, fileConfig = None, processed = False\<rparr>"

definition Define :: "string \<Rightarrow> (Definition \<Rightarrow> Definition) \<Rightarrow> Config \<Rightarrow> Config" where
  \<comment> \<open>\<open>c.Define(k)\<close> followed by the chain of builder calls \<open>build\<close>\<close>
  "Define k build c = c\<lparr>definitions := (definitions c)(k \<mapsto> build (newDefinition k))\<rparr>"

definition envLookup :: "FileConfig \<Rightarrow> string \<Rightarrow> any option" where
  \<comment> \<open>\<open>environments.{env}.{key}\<close> in the nested maps, the key as written and then in
      lower case\<close>
  "envLookup fc k =
     (case map_of (data fc) ''environments'' of
        Some (VMap envMap) \<Rightarrow>
          (case map_of envMap (environment fc) of
             Some (VMap currentEnvMap) \<Rightarrow>
               (case map_of currentEnvMap k of
                  Some v \<Rightarrow> Some v
                | None \<Rightarrow> map_of currentEnvMap (ToLower k))
           | _ \<Rightarrow> None)
      | _ \<Rightarrow> None)"

definition getFileValue :: "Config \<Rightarrow> string \<Rightarrow> any option" where
  \<comment> \<open>\<open>Some v\<close> is \<open>(v, true)\<close>, \<open>None\<close> is \<open>(nil, false)\<close>\<close>
  "getFileValue c k =
     (case fileConfig c of
        None \<Rightarrow> None
      | Some fc \<Rightarrow>
          (case (if environment fc \<noteq> [] then envLookup fc k else None) of
             Some v \<Rightarrow> Some v
           | None \<Rightarrow>
               (case map_of (data fc) k of
                  Some v \<Rightarrow> Some v
                | None \<Rightarrow> map_of (data fc) (ToLower k))))"

definition fileRawValue :: "Definition \<Rightarrow> any \<Rightarrow> error + string" where
  \<comment> \<open>the type switch of \<open>resolveValueWithFiles\<close> that turns a file value into text\<close>
  "fileRawValue def fileValue =
     (case fileValue of
        VString v \<Rightarrow> Inr v
      | VBool v \<Rightarrow> Inr (Sprint fileValue)
      | VInt v \<Rightarrow> Inr (Sprint fileValue)
      | VInt64 v \<Rightarrow> Inr (Sprint fileValue)
      | VFloat64 v \<Rightarrow> Inr (Sprint fileValue)
      | VSlice v \<Rightarrow> Inr (Join (map Sprint v) (delimiter def))
      | _ \<Rightarrow> Inl (''unsupported file value type: '' @ typeName fileValue))"

definition flagValue :: "Config \<Rightarrow> string \<Rightarrow> string" where
  \<comment> \<open>\<open>*flagVal\<close> for the pointer stored under the key, the empty string when the key
      has none\<close>
  "flagValue c k =
     (case flagValues c k of
        None \<Rightarrow> []
      | Some name \<Rightarrow> (case formal (flagSet c) name of None \<Rightarrow> [] | Some v \<Rightarrow> v))"

fun runValidations :: "Validation list \<Rightarrow> any \<Rightarrow> error option" where
  \<comment> \<open>the loop over the rules: the first error ends it\<close>
  "runValidations [] v = None"
| "runValidations (r # rs) v =
     (case Check r v of Some e \<Rightarrow> Some e | None \<Rightarrow> runValidations rs v)"

fun runDefaultValidations :: "Validation list \<Rightarrow> any \<Rightarrow> error option" where
  \<comment> \<open>the loop over the rules for a default: a rule named "required" is skipped\<close>
  "runDefaultValidations [] v = None"
| "runDefaultValidations (r # rs) v =
     (if Name r = ''required'' then runDefaultValidations rs v
      else case Check r v of Some e \<Rightarrow> Some e | None \<Rightarrow> runDefaultValidations rs v)"

definition finishResolve ::
    "Definition \<Rightarrow> string \<Rightarrow> string \<Rightarrow> string \<Rightarrow> any \<times> string \<times> error option" where
  \<comment> \<open>the common tail of \<open>resolveValue\<close> and \<open>resolveValueWithFiles\<close>, from "Default
      value" on; \<open>hint\<close> is the text of the required-value message that differs\<close>
  "finishResolve def hint rawValue source =
     (if rawValue = [] \<and> defaultValue def \<noteq> VNil
      then (defaultValue def, ''default'', runDefaultValidations (validations def) (defaultValue def))
      else if rawValue = []
      then (if required def
            then (VNil, ''none'',
                  Some (''required value not provided (set '' @ hint @ envVar def @ '' or --'' @ flag def @ '')''))
            else (VNil, ''none'', None))
      else case parseValue rawValue (valueType def) (delimiter def) of
             (parsedValue, Some e) \<Rightarrow> (VString rawValue, source, Some e)
           | (parsedValue, None) \<Rightarrow>
               (parsedValue, source, runValidations (validations def) parsedValue))"

definition resolveValue :: "World \<Rightarrow> Config \<Rightarrow> string \<Rightarrow> Definition \<Rightarrow> any \<times> string \<times> error option" where
  "resolveValue w c k def =
     (let (rawValue, source) =
            (if flag def \<noteq> [] \<and> flagValue c k \<noteq> [] then (flagValue c k, ''flag'') else ([], []));
          (rawValue, source) =
            (if rawValue = [] \<and> envVar def \<noteq> [] \<and> Getenv w (envVar def) \<noteq> []
             then (Getenv w (envVar def), ''env'') else (rawValue, source))
      in finishResolve def [] rawValue source)"

definition resolveValueWithFiles ::
    "World \<Rightarrow> Config \<Rightarrow> string \<Rightarrow> Definition \<Rightarrow> any \<times> string \<times> error option" where
  "resolveValueWithFiles w c k def =
     (case (case getFileValue c k of
              None \<Rightarrow> Inr ([], [])
            | Some fileValue \<Rightarrow>
                (case fileRawValue def fileValue of
                   Inl e \<Rightarrow> Inl e
                 | Inr raw \<Rightarrow> Inr (raw, ''file''))) of
        Inl e \<Rightarrow> (VNil, ''file'', Some e)
      | Inr (rawValue, source) \<Rightarrow>
          (let (rawValue, source) =
                 (if rawValue = [] \<and> envVar def \<noteq> [] \<and> Getenv w (envVar def) \<noteq> []
                  then (Getenv w (envVar def), ''env'') else (rawValue, source));
               (rawValue, source) =
                 (if rawValue = [] \<and> flag def \<noteq> [] \<and> flagValue c k \<noteq> []
                  then (flagValue c k, ''flag'') else (rawValue, source))
           in finishResolve def ''in file, '' rawValue source))"


subsection \<open>Process\<close>

text \<open>
  \<open>Process\<close> ranges over the map of definitions twice. Go leaves the order of a
  \<open>range\<close> over a map open, so each loop takes the order of its visit as an argument:
  a list of the keys of the map. A panic is \<open>Inl\<close> with its message. The heap of
  secrets is passed in and returned.
\<close>

definition registerFlag :: "string \<Rightarrow> Config \<Rightarrow> string + Config" where
  \<comment> \<open>the body of the loop "Register all flags first"\<close>
  "registerFlag k c =
     (case definitions c k of
        None \<Rightarrow> Inr c
      | Some def \<Rightarrow>
          if flag def \<noteq> [] \<and> flagValues c k = None
          then (case FlagSet_String (flagSet c) (flag def) of
                  Inl p \<Rightarrow> Inl p
                | Inr fs \<Rightarrow> Inr (c\<lparr>flagSet := fs, flagValues := (flagValues c)(k \<mapsto> flag def)\<rparr>))
          else Inr c)"

fun registerFlags :: "string list \<Rightarrow> Config \<Rightarrow> string + Config" where
  "registerFlags [] c = Inr c"
| "registerFlags (k # ks) c =
     (case registerFlag k c of Inl p \<Rightarrow> Inl p | Inr c' \<Rightarrow> registerFlags ks c')"

definition displayValue :: "Definition \<Rightarrow> any \<Rightarrow> string" where
  "displayValue def v =
     (if v \<noteq> VNil \<and> \<not> secret def then Sprint v
      else if v \<noteq> VNil \<and> secret def then maskSecret (Sprint v)
      else [])"

definition processDefinition ::
    "World \<Rightarrow> string \<Rightarrow> ConfigError list \<times> heap \<times> Config \<Rightarrow> ConfigError list \<times> heap \<times> Config" where
  \<comment> \<open>the body of the loop "Process each definition"\<close>
  "processDefinition w k st =
     (let errs = fst st; h = fst (snd st); c = snd (snd st)
      in case definitions c k of
           None \<Rightarrow> st
         | Some def \<Rightarrow>
             (case resolveValueWithFiles w c k def of
                (v, source, Some e) \<Rightarrow>
                  (errs @ [\<lparr>Key = k, Source = source, Value = displayValue def v, Message = e\<rparr>], h, c)
              | (v, source, None) \<Rightarrow>
                  if secret def \<and> v \<noteq> VNil
                  then (let hs = SecretStore_Store k (Sprint v) (h, c_secrets c)
                        in (errs, fst hs,
                            c\<lparr>c_secrets := snd hs, c_values := (c_values c)(k \<mapsto> VString ''[SECRET]'')\<rparr>))
                  else (errs, h, c\<lparr>c_values := (c_values c)(k \<mapsto> v)\<rparr>)))"

definition clearProcessed :: "heap \<times> Config \<Rightarrow> heap \<times> Config" where
  \<comment> \<open>"Clear previous values if re-processing", and the flag set to true\<close>
  "clearProcessed hc =
     (let h = fst hc; c = snd hc
      in if processed c
         then (fst (SecretStore_DestroyAll (h, c_secrets c)),
               c\<lparr>c_values := Map.empty, c_secrets := newSecretStore, processed := True\<rparr>)
         else (h, c\<lparr>processed := True\<rparr>))"

definition Process ::
    "World \<Rightarrow> string list \<Rightarrow> string list \<Rightarrow> heap \<Rightarrow> Config
       \<Rightarrow> string + (ConfigError list \<times> heap \<times> Config)" where
  \<comment> \<open>\<open>regOrder\<close> and \<open>order\<close>: the orders in which the two loops visit the keys\<close>
  "Process w regOrder order h c =
     (let hc = clearProcessed (h, c)
      in case registerFlags regOrder (snd hc) of
           Inl p \<Rightarrow> Inl p
         | Inr c1 \<Rightarrow>
             (case Args w of
                [] \<Rightarrow> Inl ''runtime error: slice bounds out of range [1:0]''
              | prog # args \<Rightarrow>
                  (let filteredArgs = filter (\<lambda>arg. \<not> HasPrefix arg ''-test.'') args;
                       c2 = c1\<lparr>flagSet := FlagSet_Parse (flagSet c1) filteredArgs\<rparr>
                   in Inr (foldl (\<lambda>st k. processDefinition w k st) ([], fst hc, c2) order))))"

subsection \<open>The effect of the resolution loop on one key\<close>

text \<open>
  The three things the body of the resolution loop does for a key, each read off
  \<open>processDefinition\<close>: the error record it appends, the entry it writes into the value
  map, and the text it hands to the secret store. They are used to state what
  \<open>Process\<close> returns; \<open>processDefinition_parts\<close> below proves that the body is made of
  exactly these.
\<close>

definition errorRecord :: "World \<Rightarrow> Config \<Rightarrow> string \<Rightarrow> ConfigError option" where
  "errorRecord w c k =
     (case definitions c k of
        None \<Rightarrow> None
      | Some def \<Rightarrow>
          (case resolveValueWithFiles w c k def of
             (v, source, Some e) \<Rightarrow>
               Some \<lparr>Key = k, Source = source, Value = displayValue def v, Message = e\<rparr>
           | (v, source, None) \<Rightarrow> None))"

definition storedValue :: "World \<Rightarrow> Config \<Rightarrow> string \<Rightarrow> any option" where
  "storedValue w c k =
     (case definitions c k of
        None \<Rightarrow> None
      | Some def \<Rightarrow>
          (case resolveValueWithFiles w c k def of
             (v, source, Some e) \<Rightarrow> None
           | (v, source, None) \<Rightarrow>
               Some (if secret def \<and> v \<noteq> VNil then VString ''[SECRET]'' else v)))"

definition storedSecret :: "World \<Rightarrow> Config \<Rightarrow> string \<Rightarrow> string option" where
  "storedSecret w c k =
     (case definitions c k of
        None \<Rightarrow> None
      | Some def \<Rightarrow>
          (case resolveValueWithFiles w c k def of
             (v, source, Some e) \<Rightarrow> None
           | (v, source, None) \<Rightarrow> if secret def \<and> v \<noteq> VNil then Some (Sprint v) else None))"

definition storeStep :: "World \<Rightarrow> Config \<Rightarrow> heap \<times> SecretStore \<Rightarrow> string \<Rightarrow> heap \<times> SecretStore" where
  \<comment> \<open>the loop body's effect on the heap and the secret store\<close>
  "storeStep w c hs k = (case storedSecret w c k of None \<Rightarrow> hs | Some s \<Rightarrow> SecretStore_Store k s hs)"

definition valueStep :: "World \<Rightarrow> Config \<Rightarrow> (string \<rightharpoonup> any) \<Rightarrow> string \<Rightarrow> (string \<rightharpoonup> any)" where
  \<comment> \<open>the loop body's effect on the value map\<close>
  "valueStep w c m k = (case storedValue w c k of None \<Rightarrow> m | Some v \<Rightarrow> m(k \<mapsto> v))"

definition secretOf :: "string \<Rightarrow> Secret" where
  \<comment> \<open>the secret that \<open>newSecret\<close> makes of a text\<close>
  "secretOf s = \<lparr>buffer = (if s = [] then None else Some s)\<rparr>"

definition noFileValue :: "Config \<Rightarrow> Definition \<Rightarrow> string \<Rightarrow> bool" where
  \<comment> \<open>the file source yields no value for the key: there is no file entry, or its text
      is empty\<close>
  "noFileValue c def k =
     (case getFileValue c k of None \<Rightarrow> True | Some fileValue \<Rightarrow> fileRawValue def fileValue = Inr [])"

definition sameSources :: "Config \<Rightarrow> Config \<Rightarrow> bool" where
  \<comment> \<open>two configurations agree on everything that resolution reads\<close>
  "sameSources c c' =
     (definitions c' = definitions c \<and> fileConfig c' = fileConfig c
      \<and> flagSet c' = flagSet c \<and> flagValues c' = flagValues c)"

definition visits :: "Config \<Rightarrow> string list \<Rightarrow> bool" where
  \<comment> \<open>a list is an order in which a \<open>range\<close> can visit the map of definitions: every
      key once\<close>
  "visits c ks = (distinct ks \<and> set ks = dom (definitions c))"

section \<open>get.go: reading values\<close>

text \<open>
  The type parameter of \<open>Get\<close> and \<open>GetOr\<close> is a concrete type, given by its name as
  \<open>%T\<close> prints it, or the interface \<open>any\<close>. A type assertion to a concrete type holds
  when the dynamic type of the value is that type; one to \<open>any\<close> holds for every value
  but the nil interface.
\<close>

datatype GoType = Concrete string | AnyType

definition typeAssert :: "any \<Rightarrow> GoType \<Rightarrow> bool" where
  "typeAssert v T =
     (case T of
        Concrete tn \<Rightarrow> v \<noteq> VNil \<and> typeName v = tn
      | AnyType \<Rightarrow> v \<noteq> VNil)"

definition zeroTypeName :: "GoType \<Rightarrow> string" where
  \<comment> \<open>\<open>%T\<close> of the zero value of the type\<close>
  "zeroTypeName T = (case T of Concrete tn \<Rightarrow> tn | AnyType \<Rightarrow> ''<nil>'')"

definition IsSecret :: "Config \<Rightarrow> string \<Rightarrow> bool" where
  "IsSecret c k = (case definitions c k of Some def \<Rightarrow> secret def | None \<Rightarrow> False)"

definition Get :: "GoType \<Rightarrow> Config \<Rightarrow> string \<Rightarrow> string + any" where
  \<comment> \<open>\<open>Inl\<close> is a panic with its message\<close>
  "Get T c k =
     (case c_values c k of
        None \<Rightarrow> Inl (''commandkit: key '' @ [CHR 0x27] @ k @ [CHR 0x27] @ '' not found (did you define it?)'')
      | Some v \<Rightarrow>
          if (case definitions c k of Some def \<Rightarrow> secret def | None \<Rightarrow> False)
          then Inl (''commandkit: key '' @ [CHR 0x27] @ k @ [CHR 0x27] @ '' is a secret, use GetSecret() instead'')
          else if \<not> typeAssert v T
          then Inl (''commandkit: key '' @ [CHR 0x27] @ k @ [CHR 0x27] @ '' has type '' @ typeName v
                    @ '', not '' @ zeroTypeName T)
          else Inr v)"

definition GetOr :: "GoType \<Rightarrow> Config \<Rightarrow> string \<Rightarrow> any \<Rightarrow> any" where
  "GetOr T c k defaultVal =
     (case c_values c k of
        None \<Rightarrow> defaultVal
      | Some v \<Rightarrow>
          if v = VNil then defaultVal
          else if \<not> typeAssert v T then defaultVal
          else v)"

definition Has :: "Config \<Rightarrow> string \<Rightarrow> bool" where
  "Has c k = (case c_values c k of Some v \<Rightarrow> v \<noteq> VNil | None \<Rightarrow> False)"

definition GetSecret :: "heap \<Rightarrow> Config \<Rightarrow> string \<Rightarrow> Secret" where
  "GetSecret h c k = SecretStore_Get h (c_secrets c) k"


definition prepared :: "World \<Rightarrow> Config \<Rightarrow> Config" where
  \<comment> \<open>the configuration on which the resolution loop of \<open>Process\<close> starts, after the
      flags are registered (\<open>c1\<close>) and the arguments parsed; \<open>os.Args\<close> is not empty
      there\<close>
  "prepared w c1 =
     c1\<lparr>flagSet := FlagSet_Parse (flagSet c1)
                    (filter (\<lambda>arg. \<not> HasPrefix arg ''-test.'') (tl (Args w)))\<rparr>"

section \<open>Example configurations\<close>

text \<open>
  The scenario of the specification: \<open>API_KEY\<close>, a required secret string read from the
  environment variable of the same name, which is set to "s3cr3t-val".
\<close>

definition apiKeyDefinition :: Definition where
  "apiKeyDefinition =
     (DefinitionBuilder_Env ''API_KEY'' \<circ> DefinitionBuilder_Required \<circ> DefinitionBuilder_Secret
        \<circ> DefinitionBuilder_String) (newDefinition ''API_KEY'')"

definition apiKeyConfig :: Config where
  "apiKeyConfig =
     Define ''API_KEY''
       (DefinitionBuilder_Env ''API_KEY'' \<circ> DefinitionBuilder_Required \<circ> DefinitionBuilder_Secret
          \<circ> DefinitionBuilder_String) New"

definition apiKeyWorld :: World where
  "apiKeyWorld =
     \<lparr>Getenv = (\<lambda>name. if name = ''API_KEY'' then ''s3cr3t-val'' else []), Args = [''app'']\<rparr>"

text \<open>
  \<open>HOST\<close>, an optional string with an environment variable and no default, in a process
  that does not set the variable (the case of \<open>get_test.go\<close>).
\<close>

definition hostDefinition :: Definition where
  "hostDefinition = DefinitionBuilder_Env ''HOST'' (newDefinition ''HOST'')"

definition hostConfig :: Config where
  "hostConfig = Define ''HOST'' (DefinitionBuilder_Env ''HOST'') New"

definition emptyWorld :: World where
  "emptyWorld = \<lparr>Getenv = (\<lambda>name. []), Args = [''app'']\<rparr>"

text \<open>
  \<open>PORT\<close>, an integer with the flag \<open>--port\<close> and the environment variable
  \<open>PORT\<close>, in a process started as \<open>app --port 3000\<close> with \<open>PORT=9000\<close>.
\<close>

definition portDefinition :: Definition where
  "portDefinition =
     (DefinitionBuilder_Flag ''port'' \<circ> DefinitionBuilder_Env ''PORT'' \<circ> DefinitionBuilder_Int64)
       (newDefinition ''PORT'')"

definition portConfig :: Config where
  "portConfig =
     Define ''PORT''
       (DefinitionBuilder_Flag ''port'' \<circ> DefinitionBuilder_Env ''PORT'' \<circ> DefinitionBuilder_Int64) New"

definition portWorld :: World where
  "portWorld =
     \<lparr>Getenv = (\<lambda>name. if name = ''PORT'' then ''9000'' else []),
      Args = [''app'', ''--port'', ''3000'']\<rparr>"





text \<open>
  \<open>NAME\<close>, a required string of at least three characters with the default "ab".
\<close>

definition nameDefinition :: Definition where
  "nameDefinition =
     (DefinitionBuilder_MinLength 3 \<circ> DefinitionBuilder_Required
        \<circ> DefinitionBuilder_Default (VString ''ab'') \<circ> DefinitionBuilder_Env ''NAME'')
       (newDefinition ''NAME'')"




section \<open>Properties of parseValue\<close>

lemma dropWhile_hd_stable: "xs \<noteq> [] \<Longrightarrow> \<not> P (hd xs) \<Longrightarrow> dropWhile P xs = xs"
  by (cases xs) auto

lemma dropWhile_rev_hd:
  assumes "xs \<noteq> []" "\<not> P (hd xs)"
  shows "rev (dropWhile P (rev xs)) \<noteq> [] \<and> hd (rev (dropWhile P (rev xs))) = hd xs"
proof -
  obtain x ys where xs: "xs = x # ys" using assms(1) by (cases xs) auto
  have "dropWhile P (rev xs) = dropWhile P (rev ys) @ [x]"
    using assms(2) xs by (auto simp: dropWhile_append)
  then show ?thesis using xs by simp
qed

lemma TrimSpace_idem: "TrimSpace (TrimSpace s) = TrimSpace s"
proof -
  define u where "u = dropWhile isSpace s"
  define t where "t = rev (dropWhile isSpace (rev u))"
  have ts: "TrimSpace s = t" by (simp add: TrimSpace_def t_def u_def)
  show ?thesis
  proof (cases "u = []")
    case True
    then have "t = []" by (simp add: t_def)
    then show ?thesis unfolding ts by (simp add: TrimSpace_def)
  next
    case False
    have hu: "\<not> isSpace (hd u)" using False unfolding u_def by (metis hd_dropWhile)
    from dropWhile_rev_hd[of u isSpace, OF False hu] have tne: "t \<noteq> []" and ht: "hd t = hd u"
      by (simp_all add: t_def)
    have d1: "dropWhile isSpace t = t"
      using tne ht hu by (simp add: dropWhile_hd_stable)
    have rt: "rev t = dropWhile isSpace (rev u)" by (simp add: t_def)
    have "rev t \<noteq> []" using tne by simp
    then have "\<not> isSpace (hd (rev t))" unfolding rt by (metis hd_dropWhile)
    then have d2: "dropWhile isSpace (rev t) = rev t"
      using \<open>rev t \<noteq> []\<close> by (simp add: dropWhile_hd_stable)
    show ?thesis unfolding ts by (simp add: TrimSpace_def d1 d2)
  qed
qed

lemma digit_cases:
  "0 \<le> d \<Longrightarrow> d < 10 \<Longrightarrow>
   (d::int) = 0 \<or> d = 1 \<or> d = 2 \<or> d = 3 \<or> d = 4 \<or> d = 5 \<or> d = 6 \<or> d = 7 \<or> d = 8 \<or> d = 9"
  by arith

lemma digitChar_props:
  assumes "0 \<le> d" "d < (10::int)"
  shows "isDigit (digitChar d) \<and> digitVal (digitChar d) = d"
proof -
  have "\<forall>d \<in> set [0, 1, 2, 3, 4, 5, 6, 7, 8, 9 :: int]. isDigit (digitChar d) \<and> digitVal (digitChar d) = d"
    by code_simp
  then show ?thesis using digit_cases[OF assms] by auto
qed

lemma showNat_nonempty: "showNat n \<noteq> []"
  by (subst showNat.simps) simp

lemma showNat_digits:
  "0 \<le> n \<Longrightarrow> list_all isDigit (showNat n) \<and> digitsVal (showNat n) = n"
proof (induction n rule: showNat.induct)
  case (1 n)
  show ?case
  proof (cases "n < 10")
    case True
    then show ?thesis using 1(2) digitChar_props[of n]
      by (subst (1 2) showNat.simps) (simp add: digitsVal_def)
  next
    case False
    have ih: "list_all isDigit (showNat (n div 10)) \<and> digitsVal (showNat (n div 10)) = n div 10"
      using 1(1)[OF False] 1(2) by simp
    have d: "isDigit (digitChar (n mod 10)) \<and> digitVal (digitChar (n mod 10)) = n mod 10"
      by (rule digitChar_props) simp_all
    show ?thesis using False ih d
      by (subst (1 2) showNat.simps) (simp add: digitsVal_def)
  qed
qed

lemma digitVal_nonneg: "isDigit c \<Longrightarrow> 0 \<le> digitVal c"
proof -
  assume "isDigit c"
  then have "(48::nat) \<le> of_char c" by (simp add: isDigit_def less_eq_char_def)
  moreover have "(of_char c :: int) = int (of_char c)" by (simp add: of_nat_of_char)
  ultimately show ?thesis by (simp add: digitVal_def)
qed


lemma foldl_digits_mono:
  "list_all isDigit ds \<Longrightarrow> 0 \<le> x \<Longrightarrow> x \<le> foldl (\<lambda>x c. x * 10 + digitVal c) x ds"
proof (induction ds arbitrary: x)
  case Nil
  then show ?case by simp
next
  case (Cons c ds)
  have c: "0 \<le> digitVal c" using Cons.prems(1) by (simp add: digitVal_nonneg)
  have "x * 10 + digitVal c \<le> foldl (\<lambda>x c. x * 10 + digitVal c) (x * 10 + digitVal c) ds"
    using Cons.IH[of "x * 10 + digitVal c"] Cons.prems c by simp
  then show ?case using Cons.prems(2) c by simp
qed

lemma leadingInt_loop_digits:
  "list_all isDigit ds \<Longrightarrow> 0 \<le> x \<Longrightarrow> foldl (\<lambda>x c. x * 10 + digitVal c) x ds \<le> 2 ^ 63 \<Longrightarrow>
   rest = [] \<or> \<not> isDigit (hd rest) \<Longrightarrow>
   leadingInt_loop x (ds @ rest) = Some (foldl (\<lambda>x c. x * 10 + digitVal c) x ds, rest)"
proof (induction ds arbitrary: x)
  case Nil
  then show ?case by (cases rest) auto
next
  case (Cons c ds)
  have c: "isDigit c" "0 \<le> digitVal c" using Cons.prems(1) by (simp_all add: digitVal_nonneg)
  let ?y = "x * 10 + digitVal c"
  have y0: "0 \<le> ?y" using Cons.prems(2) c by simp
  have "?y \<le> foldl (\<lambda>x c. x * 10 + digitVal c) ?y ds"
    using foldl_digits_mono[of ds ?y] Cons.prems(1) y0 by simp
  then have yb: "?y \<le> 2 ^ 63" using Cons.prems(3) by simp
  then have xb: "\<not> x > 2 ^ 63 div 10" using c(2) by simp
  have "leadingInt_loop ?y (ds @ rest) = Some (foldl (\<lambda>x c. x * 10 + digitVal c) ?y ds, rest)"
    using Cons.IH[of ?y] Cons.prems y0 by simp
  then show ?case using c(1) xb yb by simp
qed

lemma leadingInt_showNat:
  assumes "0 \<le> m" "m \<le> 2 ^ 63" "rest = [] \<or> \<not> isDigit (hd rest)"
  shows "leadingInt (showNat m @ rest) = Some (m, rest)"
proof -
  have d: "list_all isDigit (showNat m)" "digitsVal (showNat m) = m"
    using showNat_digits[OF assms(1)] by simp_all
  then have "foldl (\<lambda>x c. x * 10 + digitVal c) 0 (showNat m) = m" by (simp add: digitsVal_def)
  then show ?thesis
    using leadingInt_loop_digits[of "showNat m" 0 rest] d(1) assms(2,3)
    by (simp add: leadingInt_def)
qed

lemma showNat_hd: "0 \<le> m \<Longrightarrow> isDigit (hd (showNat m))"
  using showNat_digits[of m] showNat_nonempty[of m] by (cases "showNat m") auto

lemma durationTerm_hours:
  assumes "0 \<le> m" "m \<le> 2562047"
  shows "durationTerm (showNat m @ ''h'') = Some (m * 3600000000000, [])"
proof -
  let ?s = "showNat m @ ''h''"
  have hd: "isDigit (hd ?s)" using showNat_hd[OF assms(1)] showNat_nonempty[of m] by simp
  have li: "leadingInt ?s = Some (m, ''h'')"
    using leadingInt_showNat[of m "''h''"] assms by (simp add: isDigit_def less_eq_char_def)
  have len: "length ''h'' \<noteq> length ?s" using showNat_nonempty[of m] by simp
  have np: "\<not> HasPrefix ''h'' ''.''" by (simp add: HasPrefix_def)
  have u: "takeWhile isUnitChar ''h'' = ''h''" "dropWhile isUnitChar ''h'' = []"
    by (simp_all add: isUnitChar_def isDigit_def less_eq_char_def)
  have um: "unitMap ''h'' = Some 3600000000000" by (simp add: unitMap_def)
  have b: "\<not> m > 2 ^ 63 div 3600000000000" using assms(2) by simp
  have uc: "isUnitChar CHR ''h''" by (simp add: isUnitChar_def isDigit_def less_eq_char_def)
  have len': "Suc 0 \<noteq> length (showNat m @ ''h'')" using showNat_nonempty[of m] by simp
  show ?thesis
    unfolding durationTerm_def using hd showNat_nonempty[of m] assms(2) uc len'
    by (simp add: li np um Let_def del: length_append)
qed


lemma ParseDuration_neg_hours:
  assumes "0 \<le> m" "m \<le> 2562047"
  shows "ParseDuration (''-'' @ showNat m @ ''h'') = Some (- (m * Hour))"
proof -
  let ?s = "showNat m @ ''h''"
  have ne: "?s \<noteq> []" by simp
  have "last ?s = CHR ''h''" by simp
  then have nz: "?s \<noteq> ''0''" by auto
  have dl: "durationLoop 0 ?s = Some (m * 3600000000000)"
    using durationTerm_hours[OF assms] assms
    by (subst durationLoop.simps) (simp add: durationLoop.simps[of _ "[]"])
  show ?thesis
    unfolding ParseDuration_def using nz ne dl
    by (simp add: Let_def Hour_def Minute_def Second_def HasPrefix_def)
qed

lemma roundHalfEven_nonneg: "0 \<le> r \<Longrightarrow> 0 \<le> roundHalfEven r"
  by (auto simp: roundHalfEven_def Let_def)


lemma suffix_d: "X @ ''d'' \<noteq> [] \<and> HasSuffix (X @ ''d'') ''d'' \<and> TrimSuffix (X @ ''d'') ''d'' = X"
  by (simp add: HasSuffix_def TrimSuffix_def)









lemma parseValue_neg_days:
  assumes "ParseFloat X = Some (Fin r)" "fmul (Fin r) 24 = Fin p" "p < 0"
    "roundHalfEven (- p) \<le> 2562047"
  shows "parseValue (X @ ''d'') TypeDuration dl = (VDuration (- (roundHalfEven (- p) * Hour)), None)"
proof -
  have p0: "0 \<le> - p" using assms(3) by simp
  have f: "FormatFloat0 (fmul (Fin r) 24) = ''-'' @ showNat (roundHalfEven (- p))"
    using assms(2,3) by (simp add: FormatFloat0_def)
  have p: "ParseDuration (''-'' @ showNat (roundHalfEven (- p)) @ ''h'')
             = Some (- (roundHalfEven (- p) * Hour))"
    using ParseDuration_neg_hours[OF roundHalfEven_nonneg[OF p0] assms(4)] .
  show ?thesis
    unfolding parseValue_def using suffix_d[of X] assms(1) f p by simp
qed









lemma parseValue_empty: "parseValue [] vt d = (VNil, None)"
  by (simp add: parseValue_def)

lemma parseValue_StringSlice:
  "raw \<noteq> [] \<Longrightarrow> parseValue raw TypeStringSlice d =
     (VStringSlice (filter (\<lambda>t. t \<noteq> []) (map TrimSpace (Split raw d))), None)"
  by (simp add: parseValue_def)

lemma parseValue_a_b: "parseValue ''a,,b'' TypeStringSlice '','' = (VStringSlice [''a'', ''b''], None)"
  by code_simp

text \<open>
  Claim C9. Parsing "a,,b" with the delimiter "," as a string list gives exactly
  ["a", "b"]. Parsing the empty string gives nil and no error for every value type and
  delimiter, not an empty list. In general a non-empty text parses, as a string list,
  to a list whose elements are all non-empty and free of surrounding white space.
\<close>

theorem C9_parseValue_list_and_empty:
  "parseValue ''a,,b'' TypeStringSlice '','' = (VStringSlice [''a'', ''b''], None)
   \<and> (\<forall>vt d. parseValue [] vt d = (VNil, None))
   \<and> (\<forall>raw d. raw \<noteq> [] \<longrightarrow>
         (\<exists>xs. parseValue raw TypeStringSlice d = (VStringSlice xs, None)
               \<and> (\<forall>x \<in> set xs. x \<noteq> [] \<and> TrimSpace x = x)))"
proof (intro conjI allI impI)
  show "parseValue ''a,,b'' TypeStringSlice '','' = (VStringSlice [''a'', ''b''], None)"
    by (rule parseValue_a_b)
next
  fix vt d show "parseValue [] vt d = (VNil, None)" by (rule parseValue_empty)
next
  fix raw d :: string
  assume "raw \<noteq> []"
  then show "\<exists>xs. parseValue raw TypeStringSlice d = (VStringSlice xs, None)
               \<and> (\<forall>x \<in> set xs. x \<noteq> [] \<and> TrimSpace x = x)"
    by (auto simp: parseValue_StringSlice TrimSpace_idem)
qed

theorem C9_parseValue_list_and_empty_witness:
  "parseValue [] TypeDuration '';'' = (VNil, None)
   \<and> (\<exists>xs. parseValue '' x ; ;y '' TypeStringSlice '';'' = (VStringSlice xs, None)
          \<and> list_all (\<lambda>x. x \<noteq> [] \<and> TrimSpace x = x) xs)"
  using C9_parseValue_list_and_empty by (simp add: list_all_iff)




section \<open>Properties of resolution and Process\<close>

lemma getFileValue_sameSources: "sameSources c c' \<Longrightarrow> getFileValue c' k = getFileValue c k"
  by (simp add: sameSources_def getFileValue_def)

lemma flagValue_sameSources: "sameSources c c' \<Longrightarrow> flagValue c' k = flagValue c k"
  by (auto simp: sameSources_def flagValue_def split: option.splits)

lemma resolve_sameSources:
  assumes "sameSources c c'"
  shows "resolveValueWithFiles w c' k d = resolveValueWithFiles w c k d"
proof -
  have f: "flagValue c' = flagValue c"
    by (rule ext) (simp add: flagValue_sameSources[OF assms])
  have g: "getFileValue c' = getFileValue c"
    by (rule ext) (simp add: getFileValue_sameSources[OF assms])
  show ?thesis unfolding resolveValueWithFiles_def f g ..
qed

lemma resolve_sameSources_fun:
  "sameSources c c' \<Longrightarrow> resolveValueWithFiles w c' = resolveValueWithFiles w c"
  by (intro ext) (rule resolve_sameSources)

lemma parts_sameSources:
  assumes "sameSources c c'"
  shows "errorRecord w c' k = errorRecord w c k"
    and "storedValue w c' k = storedValue w c k"
    and "storedSecret w c' k = storedSecret w c k"
  using assms unfolding errorRecord_def storedValue_def storedSecret_def
    resolve_sameSources_fun[OF assms]
  by (simp_all add: sameSources_def)

lemma sameSources_refl: "sameSources c c"
  by (simp add: sameSources_def)

lemma sameSources_trans: "sameSources a b \<Longrightarrow> sameSources b c \<Longrightarrow> sameSources a c"
  by (simp add: sameSources_def)

lemma processDefinition_parts:
  "processDefinition w k (errs, h, c) =
     (errs @ (case errorRecord w c k of None \<Rightarrow> [] | Some e \<Rightarrow> [e]),
      fst (storeStep w c (h, c_secrets c) k),
      c\<lparr>c_secrets := snd (storeStep w c (h, c_secrets c) k),
        c_values := (case storedValue w c k of None \<Rightarrow> c_values c | Some v \<Rightarrow> (c_values c)(k \<mapsto> v))\<rparr>)"
  by (auto simp: processDefinition_def errorRecord_def storedValue_def storedSecret_def storeStep_def
      Let_def split: option.splits prod.splits)

lemma parts_sameSources_fun:
  assumes "sameSources c c'"
  shows "errorRecord w c' = errorRecord w c"
    and "storedValue w c' = storedValue w c"
    and "storedSecret w c' = storedSecret w c"
  by (intro ext, simp add: parts_sameSources[OF assms])+

lemma steps_sameSources:
  assumes "sameSources c c'"
  shows "storeStep w c' = storeStep w c" and "valueStep w c' = valueStep w c"
  by (intro ext, simp add: storeStep_def valueStep_def parts_sameSources[OF assms])+

lemma loop_result:
  "foldl (\<lambda>st k. processDefinition w k st) (errs, h, c) ord =
     (errs @ List.map_filter (errorRecord w c) ord,
      fst (foldl (storeStep w c) (h, c_secrets c) ord),
      c\<lparr>c_secrets := snd (foldl (storeStep w c) (h, c_secrets c) ord),
        c_values := foldl (valueStep w c) (c_values c) ord\<rparr>)"
proof (induction ord arbitrary: errs h c)
  case Nil
  then show ?case by (simp add: List.map_filter_simps)
next
  case (Cons k ord)
  define c1 where "c1 = c\<lparr>c_secrets := snd (storeStep w c (h, c_secrets c) k),
        c_values := valueStep w c (c_values c) k\<rparr>"
  have ss: "sameSources c c1" by (simp add: c1_def sameSources_def)
  have step: "processDefinition w k (errs, h, c) =
      (errs @ (case errorRecord w c k of None \<Rightarrow> [] | Some e \<Rightarrow> [e]),
       fst (storeStep w c (h, c_secrets c) k), c1)"
    by (simp add: processDefinition_parts c1_def valueStep_def)
  have c1s: "c_secrets c1 = snd (storeStep w c (h, c_secrets c) k)"
    and c1v: "c_values c1 = valueStep w c (c_values c) k"
    by (simp_all add: c1_def)
  have upd: "\<And>X Y. c1\<lparr>c_secrets := X, c_values := Y\<rparr> = c\<lparr>c_secrets := X, c_values := Y\<rparr>"
    by (simp add: c1_def)
  show ?case
    by (simp add: step Cons.IH parts_sameSources_fun[OF ss] steps_sameSources[OF ss] c1s c1v upd
        List.map_filter_simps split: option.splits)
qed

lemma valueStep_fold:
  "foldl (valueStep w c) m ord k =
     (if k \<in> set ord then (case storedValue w c k of Some v \<Rightarrow> Some v | None \<Rightarrow> m k) else m k)"
  by (induction ord arbitrary: m) (auto simp: valueStep_def split: option.splits)

lemma map_of_assign: "map_of (assign k v m) k' = (if k' = k then Some v else map_of m k')"
  by (induction m) auto

lemma Store_eq:
  "SecretStore_Store k s (h, ss) = (h @ [secretOf s], ss\<lparr>secrets := assign k (length h) (secrets ss)\<rparr>)"
  by (simp add: SecretStore_Store_def newSecret_def secretOf_def)

lemma storeStep_fold:
  fixes h :: heap and w :: World and c :: Config
  defines "S \<equiv> \<lambda>ord ss. foldl (storeStep w c) (h, ss) ord"
  shows "length h \<le> length (fst (S ord ss)) \<and> take (length h) (fst (S ord ss)) = h
    \<and> (\<forall>k s. k \<in> set ord \<longrightarrow> storedSecret w c k = Some s \<longrightarrow>
            (\<exists>a. map_of (secrets (snd (S ord ss))) k = Some a \<and> length h \<le> a
                 \<and> a < length (fst (S ord ss)) \<and> fst (S ord ss) ! a = secretOf s))
    \<and> (\<forall>k. k \<notin> set ord \<or> storedSecret w c k = None \<longrightarrow>
            map_of (secrets (snd (S ord ss))) k = map_of (secrets ss) k)"
proof (induction ord rule: rev_induct)
  case Nil
  then show ?case by (simp add: S_def)
next
  case (snoc k' ord)
  obtain h1 ss1 where hs: "S ord ss = (h1, ss1)" by (cases "S ord ss")
  have app: "S (ord @ [k']) ss = storeStep w c (h1, ss1) k'" using hs by (simp add: S_def)
  note IH = snoc[unfolded hs fst_conv snd_conv]
  from IH have len: "length h \<le> length h1" and pre: "take (length h) h1 = h"
    and inv1: "\<And>k s. k \<in> set ord \<Longrightarrow> storedSecret w c k = Some s \<Longrightarrow>
            \<exists>a. map_of (secrets ss1) k = Some a \<and> length h \<le> a \<and> a < length h1 \<and> h1 ! a = secretOf s"
    and inv2: "\<And>k. k \<notin> set ord \<or> storedSecret w c k = None \<Longrightarrow>
            map_of (secrets ss1) k = map_of (secrets ss) k"
    by blast+
  show ?case
  proof (cases "storedSecret w c k'")
    case None
    then have st: "S (ord @ [k']) ss = (h1, ss1)" using app by (simp add: storeStep_def)
    have i1: "\<And>k s. k \<in> set (ord @ [k']) \<Longrightarrow> storedSecret w c k = Some s \<Longrightarrow>
            \<exists>a. map_of (secrets ss1) k = Some a \<and> length h \<le> a \<and> a < length h1 \<and> h1 ! a = secretOf s"
      using inv1 None by auto
    have i2: "\<And>k. k \<notin> set (ord @ [k']) \<or> storedSecret w c k = None \<Longrightarrow>
            map_of (secrets ss1) k = map_of (secrets ss) k"
      using inv2 None by (metis Un_iff empty_iff empty_set list.simps(15) insert_iff set_append)
    show ?thesis unfolding st fst_conv snd_conv using len pre i1 i2 by blast
  next
    case (Some s')
    then have st: "S (ord @ [k']) ss = (h1 @ [secretOf s'], ss1\<lparr>secrets := assign k' (length h1) (secrets ss1)\<rparr>)"
      using app by (simp add: storeStep_def Store_eq)
    have a: "length h \<le> length (h1 @ [secretOf s'])" using len by simp
    have b: "take (length h) (h1 @ [secretOf s']) = h" using len pre by simp
    have i1: "\<And>k s. k \<in> set (ord @ [k']) \<Longrightarrow> storedSecret w c k = Some s \<Longrightarrow>
            \<exists>a. map_of (assign k' (length h1) (secrets ss1)) k = Some a \<and> length h \<le> a
                  \<and> a < length (h1 @ [secretOf s']) \<and> (h1 @ [secretOf s']) ! a = secretOf s"
    proof -
      fix k s assume k: "k \<in> set (ord @ [k'])" and s: "storedSecret w c k = Some s"
      show "\<exists>a. map_of (assign k' (length h1) (secrets ss1)) k = Some a \<and> length h \<le> a
                  \<and> a < length (h1 @ [secretOf s']) \<and> (h1 @ [secretOf s']) ! a = secretOf s"
      proof (cases "k = k'")
        case True
        then show ?thesis using Some s len by (simp add: map_of_assign)
      next
        case False
        then have "k \<in> set ord" using k by simp
        from inv1[OF this s] obtain a where "map_of (secrets ss1) k = Some a" "length h \<le> a"
          "a < length h1" "h1 ! a = secretOf s" by blast
        then show ?thesis using False by (simp add: map_of_assign nth_append)
      qed
    qed
    have i2: "\<And>k. k \<notin> set (ord @ [k']) \<or> storedSecret w c k = None \<Longrightarrow>
            map_of (assign k' (length h1) (secrets ss1)) k = map_of (secrets ss) k"
    proof -
      fix k assume "k \<notin> set (ord @ [k']) \<or> storedSecret w c k = None"
      then have "k \<noteq> k'" and "k \<notin> set ord \<or> storedSecret w c k = None" using Some by auto
      then show "map_of (assign k' (length h1) (secrets ss1)) k = map_of (secrets ss) k"
        using inv2[of k] by (simp add: map_of_assign)
    qed
    have sel: "secrets (ss1\<lparr>secrets := assign k' (length h1) (secrets ss1)\<rparr>)
                 = assign k' (length h1) (secrets ss1)" by simp
    show ?thesis unfolding st fst_conv snd_conv sel using a b i1 i2 by blast
  qed
qed

lemma clearProcessed_props:
  "sameSources c (snd (clearProcessed (h, c)))"
  "processed (snd (clearProcessed (h, c)))"
  "c_values (snd (clearProcessed (h, c))) = (if processed c then Map.empty else c_values c)"
  "c_secrets (snd (clearProcessed (h, c))) = (if processed c then newSecretStore else c_secrets c)"
  "fst (clearProcessed (h, c)) = (if processed c then fst (SecretStore_DestroyAll (h, c_secrets c)) else h)"
  by (simp_all add: clearProcessed_def sameSources_def Let_def)

lemma registerFlag_frame:
  "registerFlag k c = Inr c' \<Longrightarrow>
     definitions c' = definitions c \<and> fileConfig c' = fileConfig c \<and> c_values c' = c_values c
     \<and> c_secrets c' = c_secrets c \<and> processed c' = processed c"
  by (auto simp: registerFlag_def split: option.splits if_splits sum.splits)

lemma registerFlags_frame:
  "registerFlags ks c = Inr c' \<Longrightarrow>
     definitions c' = definitions c \<and> fileConfig c' = fileConfig c \<and> c_values c' = c_values c
     \<and> c_secrets c' = c_secrets c \<and> processed c' = processed c"
proof (induction ks arbitrary: c)
  case Nil
  then show ?case by simp
next
  case (Cons k ks)
  then obtain c1 where r: "registerFlag k c = Inr c1" and rs: "registerFlags ks c1 = Inr c'"
    by (auto split: sum.splits)
  show ?case using registerFlag_frame[OF r] Cons.IH[OF rs] by simp
qed

lemma Process_Inr:
  assumes "Process w ro ord h c = Inr (errs, h', c')"
  shows "\<exists>c1. registerFlags ro (snd (clearProcessed (h, c))) = Inr c1 \<and> Args w \<noteq> []
            \<and> (errs, h', c') = foldl (\<lambda>st k. processDefinition w k st)
                   ([], fst (clearProcessed (h, c)), prepared w c1) ord"
  using assms
  by (auto simp: Process_def Let_def prepared_def split: sum.splits list.splits)

lemma Process_Inr_iff:
  "(\<exists>r. Process w ro ord h c = Inr r) \<longleftrightarrow>
     (\<exists>c1. registerFlags ro (snd (clearProcessed (h, c))) = Inr c1) \<and> Args w \<noteq> []"
  by (cases "registerFlags ro (snd (clearProcessed (h, c)))"; cases "Args w")
     (simp_all add: Process_def Let_def del: split_paired_Ex)

lemma Process_result:
  assumes "Process w ro ord h c = Inr (errs, h', c')"
  defines "h0 \<equiv> (if processed c then fst (SecretStore_DestroyAll (h, c_secrets c)) else h)"
    and "ss0 \<equiv> (if processed c then newSecretStore else c_secrets c)"
    and "v0 \<equiv> (if processed c then Map.empty else c_values c)"
  shows "definitions c' = definitions c" and "fileConfig c' = fileConfig c" and "processed c'"
    and "errs = List.map_filter (errorRecord w c') ord"
    and "c_values c' = foldl (valueStep w c') v0 ord"
    and "(h', c_secrets c') = foldl (storeStep w c') (h0, ss0) ord"
proof -
  from Process_Inr[OF assms(1)] obtain c1 where
    reg: "registerFlags ro (snd (clearProcessed (h, c))) = Inr c1" and
    loop: "(errs, h', c') = foldl (\<lambda>st k. processDefinition w k st)
                   ([], fst (clearProcessed (h, c)), prepared w c1) ord"
    by blast
  let ?c2 = "prepared w c1"
  note fr = registerFlags_frame[OF reg]
  note cp = clearProcessed_props[where c=c and h=h]
  have c2: "definitions ?c2 = definitions c" "fileConfig ?c2 = fileConfig c" "processed ?c2"
    "c_values ?c2 = v0" "c_secrets ?c2 = ss0"
    using fr cp by (simp_all add: prepared_def sameSources_def v0_def ss0_def)
  have h0: "fst (clearProcessed (h, c)) = h0" using cp by (simp add: h0_def)
  note lr = loop[unfolded loop_result h0 c2(4,5)]
  have c': "c' = ?c2\<lparr>c_secrets := snd (foldl (storeStep w ?c2) (h0, ss0) ord),
        c_values := foldl (valueStep w ?c2) v0 ord\<rparr>"
    and e: "errs = List.map_filter (errorRecord w ?c2) ord"
    and hh: "h' = fst (foldl (storeStep w ?c2) (h0, ss0) ord)"
    using lr by simp_all
  have ss: "sameSources ?c2 c'" by (subst c') (simp add: sameSources_def)
  show "definitions c' = definitions c" "fileConfig c' = fileConfig c" "processed c'"
    using c2 by (simp_all add: c')
  show "errs = List.map_filter (errorRecord w c') ord"
    using e by (simp add: parts_sameSources_fun[OF ss])
  show "c_values c' = foldl (valueStep w c') v0 ord"
    unfolding steps_sameSources[OF ss] by (subst c') simp
  show "(h', c_secrets c') = foldl (storeStep w c') (h0, ss0) ord"
    unfolding steps_sameSources[OF ss] hh by (subst c') simp
qed

lemma resolve_noFile:
  assumes "noFileValue c def k"
  shows "resolveValueWithFiles w c k def =
     (let (rawValue, source) =
            (if envVar def \<noteq> [] \<and> Getenv w (envVar def) \<noteq> []
             then (Getenv w (envVar def), ''env'') else ([], if getFileValue c k = None then [] else ''file''));
          (rawValue, source) =
            (if rawValue = [] \<and> flag def \<noteq> [] \<and> flagValue c k \<noteq> []
             then (flagValue c k, ''flag'') else (rawValue, source))
      in finishResolve def ''in file, '' rawValue source)"
  using assms
  by (auto simp: resolveValueWithFiles_def noFileValue_def Let_def split: option.splits sum.splits)

lemma resolve_env:
  assumes "noFileValue c def k" "envVar def \<noteq> []" "Getenv w (envVar def) \<noteq> []"
  shows "resolveValueWithFiles w c k def = finishResolve def ''in file, '' (Getenv w (envVar def)) ''env''"
  using assms by (simp add: resolve_noFile)

lemma resolve_none:
  assumes "noFileValue c def k" "envVar def = [] \<or> Getenv w (envVar def) = []"
    "flag def = [] \<or> flagValue c k = []" "defaultValue def = VNil"
  shows "resolveValueWithFiles w c k def =
     (VNil, ''none'',
      if required def
      then Some (''required value not provided (set in file, '' @ envVar def @ '' or --'' @ flag def @ '')'')
      else None)"
  using assms by (auto simp: resolve_noFile finishResolve_def)

lemma noFileValue_sameSources: "sameSources c c' \<Longrightarrow> noFileValue c' d k = noFileValue c d k"
  by (simp add: noFileValue_def getFileValue_sameSources)

lemma noFileValue_Process:
  assumes "Process w ro ord h c = Inr (errs, h', c')"
  shows "noFileValue c' d k = noFileValue c d k"
  using Process_result(2)[OF assms] by (simp add: noFileValue_def getFileValue_def)

lemma Process_values:
  assumes "Process w ro ord h c = Inr (errs, h', c')" "k \<in> set ord" "storedValue w c' k = Some v"
  shows "c_values c' k = Some v"
  using Process_result(5)[OF assms(1)] assms(2,3) by (simp add: valueStep_fold)

lemma Process_secret:
  assumes "Process w ro ord h c = Inr (errs, h', c')" "k \<in> set ord" "storedSecret w c' k = Some s"
  shows "\<exists>a. map_of (secrets (c_secrets c')) k = Some a \<and> a < length h' \<and> h' ! a = secretOf s"
proof -
  let ?h0 = "if processed c then fst (SecretStore_DestroyAll (h, c_secrets c)) else h"
  let ?ss0 = "if processed c then newSecretStore else c_secrets c"
  have eq: "(h', c_secrets c') = foldl (storeStep w c') (?h0, ?ss0) ord"
    using Process_result(6)[OF assms(1)] .
  from storeStep_fold[where h="?h0" and w=w and c=c' and ord=ord and ss="?ss0", folded eq] assms(2,3)
  show ?thesis by (metis fst_conv snd_conv)
qed

subsection \<open>The example configurations\<close>

lemma apiKey_registers:
  "registerFlags [''API_KEY''] (snd (clearProcessed (h, apiKeyConfig))) = Inr (snd (clearProcessed (h, apiKeyConfig)))"
  by (simp add: registerFlag_def clearProcessed_def apiKeyConfig_def Define_def New_def Let_def
      DefinitionBuilder_Env_def DefinitionBuilder_Required_def DefinitionBuilder_Secret_def
      DefinitionBuilder_String_def newDefinition_def)

lemma apiKey_lookup: "definitions apiKeyConfig ''API_KEY'' = Some apiKeyDefinition"
  by (simp add: apiKeyConfig_def apiKeyDefinition_def Define_def)

lemma apiKeyDefinition_fields:
  "valueType apiKeyDefinition = TypeString" "secret apiKeyDefinition" "required apiKeyDefinition"
  "validations apiKeyDefinition = [validateRequired]" "envVar apiKeyDefinition = ''API_KEY''"
  "flag apiKeyDefinition = []" "defaultValue apiKeyDefinition = VNil"
  by (simp_all add: apiKeyDefinition_def DefinitionBuilder_Env_def DefinitionBuilder_Required_def
      DefinitionBuilder_Secret_def DefinitionBuilder_String_def newDefinition_def)

lemma apiKey_noFile: "noFileValue apiKeyConfig d k"
  by (simp add: noFileValue_def getFileValue_def apiKeyConfig_def Define_def New_def)

lemma host_registers:
  "registerFlags [''HOST''] (snd (clearProcessed (h, hostConfig))) = Inr (snd (clearProcessed (h, hostConfig)))"
  by (simp add: registerFlag_def clearProcessed_def hostConfig_def Define_def New_def Let_def
      DefinitionBuilder_Env_def newDefinition_def)

lemma host_lookup: "definitions hostConfig ''HOST'' = Some hostDefinition"
  by (simp add: hostConfig_def hostDefinition_def Define_def)

lemma hostDefinition_fields:
  "\<not> required hostDefinition" "\<not> secret hostDefinition" "flag hostDefinition = []"
  "defaultValue hostDefinition = VNil" "envVar hostDefinition = ''HOST''"
  by (simp_all add: hostDefinition_def DefinitionBuilder_Env_def newDefinition_def)

lemma host_noFile: "noFileValue hostConfig d k"
  by (simp add: noFileValue_def getFileValue_def hostConfig_def Define_def New_def)

subsection \<open>Secrets and absent values\<close>

text \<open>
  Claim C3. Let a definition of String type be marked secret and required, let every
  rule of its chain accept the text \<open>v\<close> (the rule that \<open>Required\<close> adds does, for a
  non-empty \<open>v\<close>), let the file source yield nothing for its key, and let its environment
  variable be set to the non-empty \<open>v\<close>. After \<open>Process\<close> has returned, the value map
  holds the placeholder "[SECRET]" under the key; the handle of the secret store for the
  key is set, has the size \<open>len(v)\<close> and gives back \<open>v\<close>; and \<open>Get\<close> on the key
  panics, for every type parameter, with the message that the key is a secret.
\<close>

theorem C3_secret_from_env:
  assumes run: "Process w ro ord h c = Inr (errs, h', c')"
    and k: "k \<in> set ord" "definitions c k = Some def"
    and d: "valueType def = TypeString" "secret def" "required def"
    and rules: "runValidations (validations def) (VString v) = None"
    and src: "noFileValue c def k" "envVar def \<noteq> []" "Getenv w (envVar def) = v" "v \<noteq> []"
  shows "c_values c' k = Some (VString ''[SECRET]'')
    \<and> Secret_IsSet (GetSecret h' c' k)
    \<and> Secret_Size (GetSecret h' c' k) = length v
    \<and> Secret_String (GetSecret h' c' k) = v
    \<and> Get T c' k = Inl (''commandkit: key '' @ [CHR 0x27] @ k @ [CHR 0x27] @ '' is a secret, use GetSecret() instead'')"
proof -
  have defs: "definitions c' k = Some def" using Process_result(1)[OF run] k(2) by simp
  have nf: "noFileValue c' def k" using noFileValue_Process[OF run] src(1) by simp
  have r: "resolveValueWithFiles w c' k def = (VString v, ''env'', None)"
    using resolve_env[OF nf src(2)] src(3,4) d(1) rules
    by (simp add: finishResolve_def parseValue_def)
  have sv: "storedValue w c' k = Some (VString ''[SECRET]'')"
    and sc: "storedSecret w c' k = Some v"
    using defs r d(2) by (simp_all add: storedValue_def storedSecret_def)
  have vals: "c_values c' k = Some (VString ''[SECRET]'')"
    using Process_values[OF run k(1) sv] .
  from Process_secret[OF run k(1) sc] obtain a where
    a: "map_of (secrets (c_secrets c')) k = Some a" "a < length h'" "h' ! a = secretOf v"
    by blast
  have gs: "GetSecret h' c' k = secretOf v"
    using a by (simp add: GetSecret_def SecretStore_Get_def deref_def)
  show ?thesis
    using vals gs src(4) defs d(2)
    by (simp add: secretOf_def Secret_IsSet_def Secret_Size_def Secret_String_def Get_def)
qed

theorem C3_secret_from_env_witness:
  "\<exists>errs h' c'. Process apiKeyWorld [''API_KEY''] [''API_KEY''] [] apiKeyConfig = Inr (errs, h', c')
     \<and> c_values c' ''API_KEY'' = Some (VString ''[SECRET]'')
     \<and> Secret_IsSet (GetSecret h' c' ''API_KEY'')
     \<and> Secret_Size (GetSecret h' c' ''API_KEY'') = 10
     \<and> Secret_String (GetSecret h' c' ''API_KEY'') = ''s3cr3t-val''
     \<and> Get (Concrete ''string'') c' ''API_KEY''
         = Inl ''commandkit: key 'API_KEY' is a secret, use GetSecret() instead''"
proof -
  have "\<exists>r. Process apiKeyWorld [''API_KEY''] [''API_KEY''] [] apiKeyConfig = Inr r"
    unfolding Process_Inr_iff using apiKey_registers by (simp add: apiKeyWorld_def)
  then obtain errs h' c' where
    run: "Process apiKeyWorld [''API_KEY''] [''API_KEY''] [] apiKeyConfig = Inr (errs, h', c')"
    by (metis prod_cases3)
  have rules: "runValidations (validations apiKeyDefinition) (VString ''s3cr3t-val'') = None"
    by (simp add: apiKeyDefinition_fields validateRequired_def)
  from C3_secret_from_env[OF run _ apiKey_lookup apiKeyDefinition_fields(1,2,3) rules apiKey_noFile,
      of "Concrete ''string''"]
  show ?thesis using run by (simp add: apiKeyDefinition_fields apiKeyWorld_def)
qed

text \<open>
  Claim C10. Let a key be defined, not required and not secret, with no default, and let
  file, flag and environment yield nothing for it. After \<open>Process\<close> has returned, the
  value map has an entry for the key, and the entry is nil: \<open>Has\<close> is false,
  \<open>GetOr\<close> returns the fallback it is given, and \<open>Get\<close> panics in its type assertion
  (the value has type \<open><nil>\<close>), not with "key not found".
\<close>

theorem C10_absent_key_nil_entry:
  assumes run: "Process w ro ord h c = Inr (errs, h', c')"
    and k: "k \<in> set ord" "definitions c k = Some def"
    and d: "\<not> required def" "\<not> secret def"
    and src: "noFileValue c def k" "flag def = [] \<or> flagValue c' k = []"
      "envVar def = [] \<or> Getenv w (envVar def) = []" "defaultValue def = VNil"
  shows "c_values c' k = Some VNil
    \<and> \<not> Has c' k
    \<and> GetOr T c' k dflt = dflt
    \<and> Get T c' k = Inl (''commandkit: key '' @ [CHR 0x27] @ k @ [CHR 0x27] @ '' has type <nil>, not ''
                          @ zeroTypeName T)
    \<and> Get T c' k \<noteq> Inl (''commandkit: key '' @ [CHR 0x27] @ k @ [CHR 0x27] @ '' not found (did you define it?)'')"
proof -
  have defs: "definitions c' k = Some def" using Process_result(1)[OF run] k(2) by simp
  have nf: "noFileValue c' def k" using noFileValue_Process[OF run] src(1) by simp
  have r: "resolveValueWithFiles w c' k def = (VNil, ''none'', None)"
    using resolve_none[OF nf src(3) src(2) src(4)] d(1) by simp
  have sv: "storedValue w c' k = Some VNil"
    using defs r by (simp add: storedValue_def)
  have vals: "c_values c' k = Some VNil"
    using Process_values[OF run k(1) sv] .
  have ta: "\<not> typeAssert VNil T" by (cases T) (simp_all add: typeAssert_def)
  show ?thesis
    using vals defs d(2) ta
    by (simp add: Has_def GetOr_def Get_def)
qed

theorem C10_absent_key_nil_entry_witness:
  "\<exists>errs h' c'. Process emptyWorld [''HOST''] [''HOST''] [] hostConfig = Inr (errs, h', c')
     \<and> c_values c' ''HOST'' = Some VNil
     \<and> \<not> Has c' ''HOST''
     \<and> GetOr (Concrete ''string'') c' ''HOST'' (VString ''localhost'') = VString ''localhost''
     \<and> Get (Concrete ''string'') c' ''HOST''
         = Inl ''commandkit: key 'HOST' has type <nil>, not string''"
proof -
  have "\<exists>r. Process emptyWorld [''HOST''] [''HOST''] [] hostConfig = Inr r"
    unfolding Process_Inr_iff using host_registers by (simp add: emptyWorld_def)
  then obtain errs h' c' where
    run: "Process emptyWorld [''HOST''] [''HOST''] [] hostConfig = Inr (errs, h', c')"
    by (metis prod_cases3)
  have env: "envVar hostDefinition = [] \<or> Getenv emptyWorld (envVar hostDefinition) = []"
    by (simp add: emptyWorld_def)
  have fl: "flag hostDefinition = [] \<or> flagValue c' ''HOST'' = []"
    by (simp add: hostDefinition_fields)
  from C10_absent_key_nil_entry[OF run _ host_lookup hostDefinition_fields(1,2) host_noFile fl env hostDefinition_fields(4),
      of "Concrete ''string''" "VString ''localhost''"]
  show ?thesis using run by (simp add: zeroTypeName_def)
qed

subsection \<open>Priority of the sources\<close>

lemma runDefaultValidations_filter:
  "runDefaultValidations rs v = runValidations (filter (\<lambda>r. Name r \<noteq> ''required'') rs) v"
  by (induction rs) (auto split: option.splits)

lemma runValidations_None: "runValidations rs v = None \<longleftrightarrow> (\<forall>r \<in> set rs. Check r v = None)"
  by (induction rs) (auto split: option.splits)

lemma runValidations_first:
  "(\<forall>q \<in> set pre. Check q v = None) \<Longrightarrow> Check r v = Some e \<Longrightarrow>
   runValidations (pre @ r # post) v = Some e"
  by (induction pre) (auto split: option.splits)

lemma resolveValue_noSource:
  assumes "envVar def = [] \<or> Getenv w (envVar def) = []" "flag def = [] \<or> flagValue c k = []"
  shows "resolveValue w c k def = finishResolve def [] [] []"
  using assms by (auto simp: resolveValue_def Let_def)

lemma resolve_noSource:
  assumes "noFileValue c def k" "envVar def = [] \<or> Getenv w (envVar def) = []"
    "flag def = [] \<or> flagValue c k = []"
  shows "\<exists>src. resolveValueWithFiles w c k def = finishResolve def ''in file, '' [] src"
  using assms by (auto simp: resolve_noFile Let_def)

lemma finishResolve_default:
  "defaultValue def \<noteq> VNil \<Longrightarrow>
   finishResolve def hint [] src =
     (defaultValue def, ''default'', runDefaultValidations (validations def) (defaultValue def))"
  by (simp add: finishResolve_def)





text \<open>
  Claim C6. Let a definition have a default (a non-nil \<open>defaultValue\<close>), and let file,
  flag and environment yield nothing for its key. Resolution, on the path with files and
  on the path without, returns exactly the default with the source "default". The error
  it returns is that of the first rule, in the order of the chain and leaving out every
  rule named "required", whose check rejects the default: there is no error exactly when
  every rule other than "required" accepts the default, and a rule that rejects it, after
  rules that are named "required" or accept it, gives its own error.
\<close>

theorem C6_default_value:
  assumes "defaultValue def \<noteq> VNil" "noFileValue c def k"
    "envVar def = [] \<or> Getenv w (envVar def) = []" "flag def = [] \<or> flagValue c k = []"
  shows "resolveValueWithFiles w c k def =
           (defaultValue def, ''default'',
            runValidations (filter (\<lambda>r. Name r \<noteq> ''required'') (validations def)) (defaultValue def))
    \<and> resolveValue w c k def = resolveValueWithFiles w c k def
    \<and> (runValidations (filter (\<lambda>r. Name r \<noteq> ''required'') (validations def)) (defaultValue def) = None
          \<longleftrightarrow> (\<forall>r \<in> set (validations def). Name r = ''required'' \<or> Check r (defaultValue def) = None))
    \<and> (\<forall>pre r post e.
          validations def = pre @ r # post \<and> Name r \<noteq> ''required'' \<and> Check r (defaultValue def) = Some e
          \<and> (\<forall>q \<in> set pre. Name q = ''required'' \<or> Check q (defaultValue def) = None)
          \<longrightarrow> resolveValueWithFiles w c k def = (defaultValue def, ''default'', Some e))"
proof -
  let ?v = "defaultValue def"
  let ?rs = "filter (\<lambda>r. Name r \<noteq> ''required'') (validations def)"
  from resolve_noSource[OF assms(2,3,4)] obtain src where
    "resolveValueWithFiles w c k def = finishResolve def ''in file, '' [] src" by blast
  then have a: "resolveValueWithFiles w c k def = (?v, ''default'', runValidations ?rs ?v)"
    using assms(1) by (simp add: finishResolve_default runDefaultValidations_filter)
  have b: "resolveValue w c k def = (?v, ''default'', runValidations ?rs ?v)"
    using resolveValue_noSource[OF assms(3,4)] assms(1)
    by (simp add: finishResolve_default runDefaultValidations_filter)
  have c: "runValidations ?rs ?v = None
          \<longleftrightarrow> (\<forall>r \<in> set (validations def). Name r = ''required'' \<or> Check r ?v = None)"
    by (auto simp: runValidations_None)
  have d: "\<And>pre r post e. validations def = pre @ r # post \<Longrightarrow> Name r \<noteq> ''required''
          \<Longrightarrow> Check r ?v = Some e
          \<Longrightarrow> (\<forall>q \<in> set pre. Name q = ''required'' \<or> Check q ?v = None)
          \<Longrightarrow> runValidations ?rs ?v = Some e"
  proof -
    fix pre r post e
    assume v: "validations def = pre @ r # post" and n: "Name r \<noteq> ''required''"
      and e: "Check r ?v = Some e" and p: "\<forall>q \<in> set pre. Name q = ''required'' \<or> Check q ?v = None"
    have "?rs = filter (\<lambda>r. Name r \<noteq> ''required'') pre @ r # filter (\<lambda>r. Name r \<noteq> ''required'') post"
      using v n by simp
    moreover have "\<forall>q \<in> set (filter (\<lambda>r. Name r \<noteq> ''required'') pre). Check q ?v = None"
      using p by auto
    ultimately show "runValidations ?rs ?v = Some e"
      using runValidations_first[OF _ e] by simp
  qed
  show ?thesis
  proof (intro conjI allI impI)
    show "resolveValueWithFiles w c k def = (?v, ''default'', runValidations ?rs ?v)" by (rule a)
    show "resolveValue w c k def = resolveValueWithFiles w c k def" by (simp add: a b)
    show "runValidations ?rs ?v = None
          \<longleftrightarrow> (\<forall>r \<in> set (validations def). Name r = ''required'' \<or> Check r ?v = None)"
      by (rule c)
  next
    fix pre r post e
    assume h: "validations def = pre @ r # post \<and> Name r \<noteq> ''required'' \<and> Check r ?v = Some e
          \<and> (\<forall>q \<in> set pre. Name q = ''required'' \<or> Check q ?v = None)"
    then have "runValidations ?rs ?v = Some e" using d[of pre r post e] by blast
    then show "resolveValueWithFiles w c k def = (?v, ''default'', Some e)" using a by simp
  qed
qed

theorem C6_default_value_witness:
  "resolveValueWithFiles emptyWorld New ''NAME'' nameDefinition
     = (VString ''ab'', ''default'', Some ''value length 2 is less than minimum 3'')
   \<and> resolveValue emptyWorld New ''NAME'' nameDefinition
     = (VString ''ab'', ''default'', Some ''value length 2 is less than minimum 3'')"
proof -
  have f: "defaultValue nameDefinition = VString ''ab''" "envVar nameDefinition = ''NAME''"
    "flag nameDefinition = []"
    by (simp_all add: nameDefinition_def DefinitionBuilder_MinLength_def DefinitionBuilder_Required_def
        DefinitionBuilder_Default_def DefinitionBuilder_Env_def newDefinition_def)
  have rv: "runValidations (filter (\<lambda>r. Name r \<noteq> ''required'') (validations nameDefinition))
              (VString ''ab'') = Some ''value length 2 is less than minimum 3''"
    by code_simp
  have nf: "noFileValue New nameDefinition ''NAME''"
    by (simp add: noFileValue_def getFileValue_def New_def)
  have "defaultValue nameDefinition \<noteq> VNil" by (simp add: f)
  from C6_default_value[OF this nf, of emptyWorld] show ?thesis
    by (simp add: f rv emptyWorld_def)
qed




text \<open>
  Claim C1 does not hold for the code: \<open>resolveValueWithFiles\<close>, which \<open>Process\<close>
  calls, asks the environment before the flag. With \<open>--port 3000\<close> on the command
  line and \<open>PORT=9000\<close> in the environment, \<open>Process\<close> stores 9000, whereas
  \<open>resolveValue\<close>, the path without files, resolves the same key to the flag's 3000.
\<close>

theorem C1_env_beats_flag:
  "case Process portWorld [''PORT''] [''PORT''] [] portConfig of
     Inl p \<Rightarrow> False
   | Inr (errs, h', c') \<Rightarrow>
       errs = [] \<and> flagValue c' ''PORT'' = ''3000'' \<and> Getenv portWorld ''PORT'' = ''9000''
       \<and> c_values c' ''PORT'' = Some (VInt64 9000)
       \<and> resolveValueWithFiles portWorld c' ''PORT'' portDefinition = (VInt64 9000, ''env'', None)
       \<and> resolveValue portWorld c' ''PORT'' portDefinition = (VInt64 3000, ''flag'', None)"
  by code_simp

subsection \<open>The two maps after a successful run\<close>

lemma map_filter_Nil: "List.map_filter f xs = [] \<longleftrightarrow> (\<forall>x \<in> set xs. f x = None)"
  by (induction xs) (auto simp: List.map_filter_simps split: option.splits)

lemma Process_secret_none:
  assumes "Process w ro ord h c = Inr (errs, h', c')" "k \<notin> set ord \<or> storedSecret w c' k = None"
  shows "map_of (secrets (c_secrets c')) k
           = map_of (secrets (if processed c then newSecretStore else c_secrets c)) k"
proof -
  let ?h0 = "if processed c then fst (SecretStore_DestroyAll (h, c_secrets c)) else h"
  let ?ss0 = "if processed c then newSecretStore else c_secrets c"
  have eq: "(h', c_secrets c') = foldl (storeStep w c') (?h0, ?ss0) ord"
    using Process_result(6)[OF assms(1)] .
  from storeStep_fold[where h="?h0" and w=w and c=c' and ord=ord and ss="?ss0", folded eq] assms(2)
  show ?thesis by (metis snd_conv)
qed

lemma parseInt64s_not_nil: "parseInt64s ps acc = (p, None) \<Longrightarrow> p \<noteq> VNil"
  by (induction ps acc rule: parseInt64s.induct)
     (auto simp: Let_def split: if_splits option.splits)

lemma parseValue_not_nil:
  "raw \<noteq> [] \<Longrightarrow> parseValue raw vt dl = (p, None) \<Longrightarrow> p \<noteq> VNil"
  by (cases vt)
     (auto simp: parseValue_def Let_def dest: parseInt64s_not_nil
           split: option.splits if_splits prod.splits)

lemma finishResolve_nil:
  assumes "finishResolve def hint raw src = (VNil, src', None)"
  shows "src' = ''none'' \<and> \<not> required def \<and> raw = [] \<and> defaultValue def = VNil"
proof (cases "raw = []")
  case True
  then show ?thesis using assms by (auto simp: finishResolve_def split: if_splits)
next
  case False
  then show ?thesis using assms parseValue_not_nil[OF False]
    by (auto simp: finishResolve_def split: prod.splits option.splits)
qed

lemma resolve_nil:
  assumes "resolveValueWithFiles w c k def = (VNil, src, None)"
  shows "src = ''none'' \<and> \<not> required def"
  using assms finishResolve_nil
  by (auto simp: resolveValueWithFiles_def Let_def split: option.splits sum.splits prod.splits if_splits)

text \<open>
  Claim C2, as stated, fails. After a \<open>Process\<close> that returns no error, a secret key
  with a value has an entry in both maps: the vault holds the value and the value map
  holds the placeholder "[SECRET]" (the code stores it "for Has() checks"). And a key
  that is not required and resolved to no value is not absent: the value map holds
  nil under it.
\<close>

theorem C2_both_maps_counterexample:
  "(case Process apiKeyWorld [''API_KEY''] [''API_KEY''] [] apiKeyConfig of
      Inl p \<Rightarrow> False
    | Inr (errs, h', c') \<Rightarrow>
        errs = [] \<and> c_values c' ''API_KEY'' = Some (VString ''[SECRET]'')
        \<and> map_of (secrets (c_secrets c')) ''API_KEY'' = Some 0)
   \<and> (case Process emptyWorld [''HOST''] [''HOST''] [] hostConfig of
      Inl p \<Rightarrow> False
    | Inr (errs, h', c') \<Rightarrow>
        errs = [] \<and> \<not> required hostDefinition \<and> c_values c' ''HOST'' = Some VNil)"
  by code_simp

text \<open>
  Claim C2, amended. After a \<open>Process\<close> that returns no error, on a configuration
  that was processed before or whose vault is empty, every defined key that the loop
  visits resolved without error and has an entry in the value map: the placeholder
  "[SECRET]" for a secret key that resolved to a value other than nil, and then the
  vault holds a handle on the text of the value under the same key; the resolved
  value for every other key, and then the vault has no entry under the key. The
  resolved value is nil only for a key that is not required and for which no source
  gave a value.
\<close>

theorem C2_entries_after_success:
  assumes run: "Process w ro ord h c = Inr (errs, h', c')"
    and ok: "errs = []"
    and k: "k \<in> set ord" "definitions c k = Some def"
    and fresh: "processed c \<or> secrets (c_secrets c) = []"
  shows "\<exists>v src. resolveValueWithFiles w c' k def = (v, src, None)
      \<and> (v = VNil \<longrightarrow> src = ''none'' \<and> \<not> required def)
      \<and> (if secret def \<and> v \<noteq> VNil
          then c_values c' k = Some (VString ''[SECRET]'')
               \<and> (\<exists>a. map_of (secrets (c_secrets c')) k = Some a \<and> a < length h'
                        \<and> h' ! a = secretOf (Sprint v))
          else c_values c' k = Some v \<and> map_of (secrets (c_secrets c')) k = None)"
proof -
  have defs: "definitions c' k = Some def" using Process_result(1)[OF run] k(2) by simp
  have "List.map_filter (errorRecord w c') ord = []"
    using Process_result(4)[OF run] ok by simp
  then have "errorRecord w c' k = None" using k(1) by (simp add: map_filter_Nil)
  then obtain v src where r: "resolveValueWithFiles w c' k def = (v, src, None)"
    using defs by (auto simp: errorRecord_def split: prod.splits option.splits)
  have nil: "v = VNil \<longrightarrow> src = ''none'' \<and> \<not> required def"
    using resolve_nil r by blast
  have empty0: "map_of (secrets (if processed c then newSecretStore else c_secrets c)) k = None"
    using fresh by (auto simp: newSecretStore_def)
  show ?thesis
  proof (cases "secret def \<and> v \<noteq> VNil")
    case True
    have sv: "storedValue w c' k = Some (VString ''[SECRET]'')"
      and sc: "storedSecret w c' k = Some (Sprint v)"
      using defs r True by (simp_all add: storedValue_def storedSecret_def)
    show ?thesis
      using r nil True Process_values[OF run k(1) sv] Process_secret[OF run k(1) sc] by simp
  next
    case False
    have sv: "storedValue w c' k = Some v" and sc: "storedSecret w c' k = None"
      using defs r False by (auto simp: storedValue_def storedSecret_def)
    have "map_of (secrets (c_secrets c')) k = None"
      using Process_secret_none[OF run, of k] sc empty0 by simp
    then show ?thesis
      using r nil False Process_values[OF run k(1) sv] by auto
  qed
qed

theorem C2_entries_after_success_witness:
  "\<exists>errs h' c' v src. Process apiKeyWorld [''API_KEY''] [''API_KEY''] [] apiKeyConfig = Inr (errs, h', c')
     \<and> errs = []
     \<and> resolveValueWithFiles apiKeyWorld c' ''API_KEY'' apiKeyDefinition = (v, src, None)
     \<and> secret apiKeyDefinition \<and> v \<noteq> VNil
     \<and> c_values c' ''API_KEY'' = Some (VString ''[SECRET]'')
     \<and> (\<exists>a. map_of (secrets (c_secrets c')) ''API_KEY'' = Some a \<and> a < length h'
              \<and> h' ! a = secretOf (Sprint v))"
proof -
  have e: "case Process apiKeyWorld [''API_KEY''] [''API_KEY''] [] apiKeyConfig of
      Inl p \<Rightarrow> False
    | Inr (errs, h', c') \<Rightarrow> errs = []
        \<and> fst (resolveValueWithFiles apiKeyWorld c' ''API_KEY'' apiKeyDefinition) \<noteq> VNil"
    by code_simp
  then obtain h' c' where
    run: "Process apiKeyWorld [''API_KEY''] [''API_KEY''] [] apiKeyConfig = Inr ([], h', c')"
    and nn: "fst (resolveValueWithFiles apiKeyWorld c' ''API_KEY'' apiKeyDefinition) \<noteq> VNil"
    by (auto split: sum.splits)
  have fresh: "processed apiKeyConfig \<or> secrets (c_secrets apiKeyConfig) = []"
    by (simp add: apiKeyConfig_def Define_def New_def newSecretStore_def)
  from C2_entries_after_success[OF run refl _ apiKey_lookup fresh]
  obtain v src where
    "resolveValueWithFiles apiKeyWorld c' ''API_KEY'' apiKeyDefinition = (v, src, None)"
    "if secret apiKeyDefinition \<and> v \<noteq> VNil
          then c_values c' ''API_KEY'' = Some (VString ''[SECRET]'')
               \<and> (\<exists>a. map_of (secrets (c_secrets c')) ''API_KEY'' = Some a \<and> a < length h'
                        \<and> h' ! a = secretOf (Sprint v))
          else c_values c' ''API_KEY'' = Some v \<and> map_of (secrets (c_secrets c')) ''API_KEY'' = None"
    by auto
  then show ?thesis using run nn apiKeyDefinition_fields(2) by auto
qed

subsection \<open>The list of errors\<close>














end
